theory Spec2Isabelle
  imports Main "HOL-Library.AList"
begin

section \<open>EMAnnotationSchemas: the schema-to-model compiler of models.py\<close>

text \<open>
  The development embeds \<^verbatim>\<open>emannotationschemas/models.py\<close>: the type table
  \<^verbatim>\<open>field_column_map\<close>, the registry \<^verbatim>\<open>ModelStore\<close>, \<^verbatim>\<open>validate_types\<close>,
  \<^verbatim>\<open>split_annotation_schema\<close>, \<^verbatim>\<open>create_table_dict\<close> with \<^verbatim>\<open>validate_metadata\<close> and
  \<^verbatim>\<open>add_column\<close>, and the entry points \<^verbatim>\<open>make_model_from_schema\<close>,
  \<^verbatim>\<open>make_sqlalchemy_model\<close>, \<^verbatim>\<open>make_flat_model_from_schema\<close>, \<^verbatim>\<open>make_flat_model\<close> and
  \<^verbatim>\<open>make_dataset_models\<close>.

  Python dictionaries keep insertion order, so every dictionary is an association list
  with distinct keys: \<open>d[k] = v\<close> is \<open>AList.update k v d\<close> (in place when the key is
  there, appended otherwise), \<open>d.pop(k)\<close> is \<open>AList.delete k d\<close> after a lookup, and
  \<open>d.get(k)\<close> is \<open>map_of d k\<close>. Exceptions are values of the type \<open>error\<close>. The state
  of the module (the globals \<^verbatim>\<open>sqlalchemy_models\<close>, \<^verbatim>\<open>Base\<close> and \<^verbatim>\<open>FlatBase\<close>) is passed
  explicitly and is returned by every call, also by a call that raises.
\<close>

subsection \<open>Python values found in metadata\<close>

datatype pyval = PyNone | PyBool bool | PyInt int | PyStr string

text \<open>Truth value of an object, as \<^verbatim>\<open>if x:\<close> and \<^verbatim>\<open>not x\<close> take it.\<close>

fun truthy :: "pyval \<Rightarrow> bool" where
  "truthy PyNone = False"
| "truthy (PyBool b) = b"
| "truthy (PyInt i) = (i \<noteq> 0)"
| "truthy (PyStr s) = (s \<noteq> [])"

text \<open>Python's \<^verbatim>\<open>==\<close>: \<^verbatim>\<open>bool\<close> is a subclass of \<^verbatim>\<open>int\<close>, so \<^verbatim>\<open>True == 1\<close>.\<close>

fun py_eq :: "pyval \<Rightarrow> pyval \<Rightarrow> bool" where
  "py_eq PyNone PyNone = True"
| "py_eq (PyBool a) (PyBool b) = (a = b)"
| "py_eq (PyBool a) (PyInt j) = ((if a then 1 else 0) = j)"
| "py_eq (PyInt i) (PyBool b) = (i = (if b then 1 else 0))"
| "py_eq (PyInt i) (PyInt j) = (i = j)"
| "py_eq (PyStr s) (PyStr t) = (s = t)"
| "py_eq _ _ = False"

fun str_nat :: "nat \<Rightarrow> string" where
  "str_nat n =
     (if n < 10 then [char_of (48 + n)]
      else str_nat (n div 10) @ [char_of (48 + n mod 10)])"

declare str_nat.simps [simp del]

text \<open>What an f-string puts in place of \<^verbatim>\<open>{x}\<close>: \<^verbatim>\<open>str(x)\<close>.\<close>

fun py_str :: "pyval \<Rightarrow> string" where
  "py_str PyNone = ''None''"
| "py_str (PyBool b) = (if b then ''True'' else ''False'')"
| "py_str (PyInt i) = (if i < 0 then ''-'' @ str_nat (nat (- i)) else str_nat (nat i))"
| "py_str (PyStr s) = s"

text \<open>\<^verbatim>\<open>d.get(k, default)\<close>; \<^verbatim>\<open>d.get(k)\<close> has the default \<^verbatim>\<open>None\<close>.\<close>

definition dict_get :: "(string \<times> pyval) list \<Rightarrow> string \<Rightarrow> pyval \<Rightarrow> pyval" where
  "dict_get d k dflt = (case map_of d k of None \<Rightarrow> dflt | Some v \<Rightarrow> v)"

subsection \<open>Fields and schemas\<close>

text \<open>
  The class of a field object. \<^verbatim>\<open>mm.fields.Int\<close>, \<^verbatim>\<open>Str\<close> and \<^verbatim>\<open>Bool\<close> are marshmallow's
  aliases of \<^verbatim>\<open>Integer\<close>, \<^verbatim>\<open>String\<close> and \<^verbatim>\<open>Boolean\<close> (the same class objects), so the ten
  keys of \<^verbatim>\<open>field_column_map\<close> are seven classes. \<open>NestedSubclass\<close> is a class derived
  from \<^verbatim>\<open>mm.fields.Nested\<close>, \<open>OtherField\<close> any other class; both carry the class name.
\<close>

datatype field_class =
    ReferenceTableField | NumericField | PostGISField
  | mm_Integer | mm_Float | mm_String | mm_Boolean
  | mm_Nested | NestedSubclass string | OtherField string

record field =
  field_type :: field_class
  metadata :: "(string \<times> pyval) list"

text \<open>A schema class: its \<^verbatim>\<open>__name__\<close> and its \<^verbatim>\<open>_declared_fields\<close>, in order.\<close>

record schema =
  schema_class_name :: string
  declared_fields :: "(string \<times> field) list"

text \<open>\<^verbatim>\<open>isinstance(field, mm.fields.Nested)\<close>\<close>

fun isinstance_Nested :: "field_class \<Rightarrow> bool" where
  "isinstance_Nested mm_Nested = True"
| "isinstance_Nested (NestedSubclass _) = True"
| "isinstance_Nested _ = False"

subsection \<open>Columns and table dicts\<close>

text \<open>
  Column types. The classes \<^verbatim>\<open>BigInteger\<close> ... \<^verbatim>\<open>DateTime\<close> are given to \<^verbatim>\<open>Column\<close> as
  they are; \<open>Geometry_class\<close> is the class \<^verbatim>\<open>Geometry\<close> as \<^verbatim>\<open>field_column_map\<close> holds it,
  \<open>Geometry g d n\<close> the instance \<^verbatim>\<open>Geometry(geometry_type=g, dimension=d, use_N_D_index=n)\<close>.
\<close>

datatype sa_type =
    BigInteger | Integer | Float | String_t | Boolean | DateTime
  | Geometry_class
  | Geometry (geometry_type: pyval) (dimension: nat) (use_N_D_index: pyval)

text \<open>
  The argument of \<^verbatim>\<open>ForeignKey\<close>. \<open>ForeignKey s\<close> is \<^verbatim>\<open>ForeignKey(s)\<close> for the string
  \<open>s\<close>. \<open>ForeignKey_of_object_str\<close> stands for \<^verbatim>\<open>ForeignKey(f"{x}.id")\<close> where \<open>x\<close> is
  a Column object or a dict: what \<^verbatim>\<open>str\<close> makes of these is not modelled.
\<close>

datatype foreign_key = ForeignKey string | ForeignKey_of_object_str

text \<open>
  A \<^verbatim>\<open>Column(...)\<close> call, by its arguments. An argument that the call leaves out is
  \<open>None\<close> (\<open>col_foreign_key\<close>, \<open>col_nullable\<close>), \<open>False\<close> (\<open>col_primary_key\<close>) or
  \<open>PyNone\<close> (\<open>col_index\<close>), SQLAlchemy's defaults for \<^verbatim>\<open>primary_key\<close> and \<^verbatim>\<open>index\<close>.
\<close>

record column =
  col_type :: sa_type
  col_foreign_key :: "foreign_key option"
  col_primary_key :: bool
  col_index :: pyval
  col_nullable :: "bool option"

definition Column :: "sa_type \<Rightarrow> column" where
  "Column t = \<lparr>col_type = t, col_foreign_key = None, col_primary_key = False,
               col_index = PyNone, col_nullable = None\<rparr>"

text \<open>
  The values of a table dict: the string under \<^verbatim>\<open>__tablename__\<close>, the dictionary under
  \<^verbatim>\<open>__mapper_args__\<close> (its \<^verbatim>\<open>polymorphic_identity\<close> and \<^verbatim>\<open>concrete\<close>), a Column, or the
  raw value that \<^verbatim>\<open>validate_metadata\<close> stores under \<^verbatim>\<open>reference_table_name\<close>.
\<close>

datatype entry =
    Name string
  | MapperArgs (polymorphic_identity: string) (concrete: bool)
  | Col column
  | Raw pyval

type_synonym table_dict = "(string \<times> entry) list"

text \<open>
  The second argument of the builders, \<^verbatim>\<open>table_metadata\<close>: \<^verbatim>\<open>None\<close>, a dict, or an object
  of another type.
\<close>

datatype table_metadata = TM_None | TM_dict "(string \<times> pyval) list" | TM_other

datatype metadata_error =
    No_metadata_provided
  | Reference_table_not_specified "(string \<times> pyval) list"

text \<open>
  The exceptions. \<open>UnknownAnnotationTypeException\<close> carries the list \<^verbatim>\<open>bad_types\<close> that
  its message \<^verbatim>\<open>f"{bad_types} are invalid types"\<close> prints; \<open>InvalidSchemaField\<close> the
  class its message names; \<open>InvalidTableMetaDataException\<close> which of its two messages,
  the second with the metadata it prints; \<open>KeyError\<close> the missing key.
  \<open>Must_be_flattened\<close> is the \<^verbatim>\<open>Exception\<close> of \<^verbatim>\<open>split_annotation_schema\<close>,
  \<open>AttributeError\<close> an attribute looked up on \<^verbatim>\<open>None\<close>, \<open>TypeError\<close> a class name given
  to \<^verbatim>\<open>type\<close> that is no string. \<open>InvalidRequestError\<close> and \<open>ArgumentError\<close> are
  SQLAlchemy's, raised when a class is made: a table of that name is already defined in
  the MetaData of the base, the attribute name \<^verbatim>\<open>metadata\<close> is reserved, no primary key can
  be assembled for the table.
\<close>

datatype invalid_request = Table_already_defined string | Attribute_name_metadata_reserved

datatype error =
    UnknownAnnotationTypeException "string list"
  | InvalidSchemaField field_class
  | InvalidTableMetaDataException metadata_error
  | Must_be_flattened
  | KeyError string
  | AttributeError
  | TypeError
  | InvalidRequestError invalid_request
  | ArgumentError

subsection \<open>The type table\<close>

text \<open>\<^verbatim>\<open>field_column_map\<close>, and \<^verbatim>\<open>field_type in field_column_map\<close> as \<open>\<noteq> None\<close>.\<close>

fun field_column_map :: "field_class \<Rightarrow> sa_type option" where
  "field_column_map ReferenceTableField = Some BigInteger"
| "field_column_map NumericField = Some BigInteger"
| "field_column_map PostGISField = Some Geometry_class"
| "field_column_map mm_Integer = Some Integer"
| "field_column_map mm_Float = Some Float"
| "field_column_map mm_String = Some String_t"
| "field_column_map mm_Boolean = Some Boolean"
| "field_column_map _ = None"

subsection \<open>What the module imports\<close>

text \<open>
  Modelled from the spec: \<^verbatim>\<open>get_types\<close>, \<^verbatim>\<open>get_schema\<close>, \<^verbatim>\<open>create_flattened_schema\<close>,
  \<^verbatim>\<open>MetaDataTypes\<close> and \<^verbatim>\<open>Contact\<close> are imported from modules that are not among the
  sources. They are parameters here, with the types the spec's input contract gives them:
  \<^verbatim>\<open>getTypes() -> set of known schema names\<close>, \<^verbatim>\<open>getSchema(name) -> SchemaDef\<close>, the
  flattener from a schema to a schema. \<^verbatim>\<open>get_schema\<close> may raise instead of returning a
  schema (for a name it does not know, say): which exception, and when, is the
  parameter's.

  From SQLAlchemy the module takes \<^verbatim>\<open>declarative_base()\<close>. The call
  \<^verbatim>\<open>type(name, (Base,), table_dict)\<close> runs the metaclass of the base, which maps the class:
  it may raise, and it writes the table into \<^verbatim>\<open>Base.metadata\<close>, also in a call that raises
  afterwards. What it does is the parameter \<open>declarative_type\<close>: from the names of the
  tables that the MetaData of the base holds, the class name and the dict, it gives the
  exception raised, if any, and the names of the tables that the MetaData holds afterwards.

  Every theorem holds for all values of the parameters.
\<close>

record package =
  MetaDataTypes_REFERENCE_value :: pyval
  get_types :: "string list"
  get_schema :: "string \<Rightarrow> error + schema"
  create_flattened_schema :: "schema \<Rightarrow> schema"
  Contact :: schema
  declarative_type :: "string list \<Rightarrow> string \<Rightarrow> table_dict \<Rightarrow> error option \<times> string list"

subsection \<open>The registry\<close>

text \<open>
  A model is the class object that \<^verbatim>\<open>type(name, (Base,), table_dict)\<close> makes: its name,
  its base (\<^verbatim>\<open>Base\<close> or \<^verbatim>\<open>FlatBase\<close>) and the dict it was made from. Two calls of
  \<^verbatim>\<open>type\<close> that return make two objects; \<open>object_id\<close> is the identity of the object, the
  number of classes made before it, so that equal models are the same object.
\<close>

datatype declarative_base = Base | FlatBase

record model =
  object_id :: nat
  class_name :: string
  class_base :: declarative_base
  class_dict :: table_dict

record ModelStore =
  container :: "(string \<times> model) list"
  flat_container :: "(string \<times> model) list"

definition ModelStore_init :: ModelStore where
  "ModelStore_init = \<lparr>container = [], flat_container = []\<rparr>"

definition contains_model :: "ModelStore \<Rightarrow> string \<Rightarrow> bool \<Rightarrow> bool" where
  "contains_model self table_name flat =
     (if flat then table_name \<in> set (map fst (flat_container self))
      else table_name \<in> set (map fst (container self)))"

definition get_model :: "ModelStore \<Rightarrow> string \<Rightarrow> bool \<Rightarrow> error + model" where
  "get_model self table_name flat =
     (if flat then
        (case map_of (flat_container self) table_name of
           None \<Rightarrow> Inl (KeyError table_name) | Some m \<Rightarrow> Inr m)
      else
        (case map_of (container self) table_name of
           None \<Rightarrow> Inl (KeyError table_name) | Some m \<Rightarrow> Inr m))"

definition set_model :: "ModelStore \<Rightarrow> string \<Rightarrow> model \<Rightarrow> bool \<Rightarrow> ModelStore" where
  "set_model self table_name m flat =
     (if flat then self\<lparr>flat_container := AList.update table_name m (flat_container self)\<rparr>
      else self\<lparr>container := AList.update table_name m (container self)\<rparr>)"

text \<open>
  The state of the module: the global \<^verbatim>\<open>sqlalchemy_models\<close>, the names of the tables in
  \<^verbatim>\<open>Base.metadata\<close> and in \<^verbatim>\<open>FlatBase.metadata\<close> (the globals \<^verbatim>\<open>Base\<close> and \<^verbatim>\<open>FlatBase\<close>),
  and the number of model classes made so far.
\<close>

record state =
  sqlalchemy_models :: ModelStore
  Base_metadata :: "string list"
  FlatBase_metadata :: "string list"
  classes_made :: nat

definition initial_state :: state where
  "initial_state =
     \<lparr>sqlalchemy_models = ModelStore_init, Base_metadata = [], FlatBase_metadata = [],
      classes_made = 0\<rparr>"

text \<open>
  \<^verbatim>\<open>type(name, (base,), table_dict)\<close>: the metaclass of the base maps the class, with the
  MetaData of that base. If it raises, no class is made; what it wrote into the MetaData
  stays. Otherwise the call gives a new class object.
\<close>

definition new_class ::
  "package \<Rightarrow> state \<Rightarrow> string \<Rightarrow> declarative_base \<Rightarrow> table_dict \<Rightarrow> (error + model) \<times> state" where
  "new_class pkg s name b d =
     (case declarative_type pkg
             (case b of Base \<Rightarrow> Base_metadata s | FlatBase \<Rightarrow> FlatBase_metadata s) name d of
        (raised, tables) \<Rightarrow>
          (let s1 = (case b of Base \<Rightarrow> s\<lparr>Base_metadata := tables\<rparr>
                     | FlatBase \<Rightarrow> s\<lparr>FlatBase_metadata := tables\<rparr>)
           in case raised of
                Some e \<Rightarrow> (Inl e, s1)
              | None \<Rightarrow>
                  (Inr \<lparr>object_id = classes_made s, class_name = name, class_base = b,
                        class_dict = d\<rparr>,
                   s1\<lparr>classes_made := Suc (classes_made s)\<rparr>)))"

subsection \<open>validate_types\<close>

definition validate_types :: "package \<Rightarrow> (string \<times> string) list \<Rightarrow> error + unit" where
  "validate_types pkg schemas_and_tables =
     (let all_types = get_types pkg in
      if \<not> list_all (\<lambda>(schema_name, table_name). schema_name \<in> set all_types) schemas_and_tables
      then
        (let bad_types = map fst (filter (\<lambda>(schema_name, table_name). schema_name \<notin> set all_types)
                                         schemas_and_tables)
         in Inl (UnknownAnnotationTypeException bad_types))
      else Inr ())"

subsection \<open>split_annotation_schema\<close>

text \<open>\<^verbatim>\<open>convert_dict_to_schema\<close>: the class \<^verbatim>\<open>Flat<schema_name>\<close> with the given fields.\<close>

definition convert_dict_to_schema :: "string \<Rightarrow> (string \<times> field) list \<Rightarrow> schema" where
  "convert_dict_to_schema name schema_dict =
     \<lparr>schema_class_name = ''Flat'' @ name, declared_fields = schema_dict\<rparr>"

text \<open>
  The loop of \<^verbatim>\<open>split_annotation_schema\<close> over the items of the flat schema, with the
  two dictionaries it fills.
\<close>

fun split_loop ::
  "(string \<times> field) list \<Rightarrow> (string \<times> field) list \<Rightarrow> (string \<times> field) list \<Rightarrow>
   error + ((string \<times> field) list \<times> (string \<times> field) list)" where
  "split_loop [] annotation_columns segmentation_columns =
     Inr (annotation_columns, segmentation_columns)"
| "split_loop ((key, fld) # rest) annotation_columns segmentation_columns =
     (if isinstance_Nested (field_type fld) then Inl Must_be_flattened
      else if truthy (dict_get (metadata fld) ''segmentation_field'' PyNone)
      then split_loop rest annotation_columns (AList.update key fld segmentation_columns)
      else split_loop rest (AList.update key fld annotation_columns) segmentation_columns)"

definition split_annotation_schema :: "package \<Rightarrow> schema \<Rightarrow> error + (schema \<times> schema)" where
  "split_annotation_schema pkg Schema =
     (let flat_schema = create_flattened_schema pkg Schema in
      case split_loop (declared_fields flat_schema) [] [] of
        Inl e \<Rightarrow> Inl e
      | Inr (annotation_columns, segmentation_columns) \<Rightarrow>
          Inr (convert_dict_to_schema (schema_class_name Schema @ ''_annotation'') annotation_columns,
               convert_dict_to_schema (schema_class_name Schema @ ''_segmentation'') segmentation_columns))"

subsection \<open>create_table_dict\<close>

definition validate_metadata ::
  "package \<Rightarrow> table_dict \<Rightarrow> field \<Rightarrow> table_metadata \<Rightarrow> error + table_dict" where
  "validate_metadata pkg mdl fld tmd =
     (let field_metadata = dict_get (metadata fld) ''metadata'' PyNone in
      if py_eq field_metadata (MetaDataTypes_REFERENCE_value pkg) then
        (case tmd of
           TM_dict d \<Rightarrow>
             (case map_of d ''reference_table'' of
                Some v \<Rightarrow> Inr (AList.update ''reference_table_name'' (Raw v) mdl)
              | None \<Rightarrow> Inl (InvalidTableMetaDataException (Reference_table_not_specified d)))
         | _ \<Rightarrow> Inl (InvalidTableMetaDataException No_metadata_provided))
      else Inr mdl)"

text \<open>The string of \<^verbatim>\<open>f"{reference_table_name}.id"\<close> for the popped entry.\<close>

fun reference_key :: "entry \<Rightarrow> foreign_key" where
  "reference_key (Raw v) = ForeignKey (py_str v @ ''.id'')"
| "reference_key (Name s) = ForeignKey (s @ ''.id'')"
| "reference_key (Col c) = ForeignKey_of_object_str"
| "reference_key (MapperArgs p c) = ForeignKey_of_object_str"

definition add_column :: "table_dict \<Rightarrow> string \<Rightarrow> field \<Rightarrow> error + table_dict" where
  "add_column mdl key fld =
     (let field_type = field_type fld;
          has_index = dict_get (metadata fld) ''index'' (PyBool False)
      in case field_column_map field_type of
           Some t \<Rightarrow>
             (if field_type = PostGISField then
                (let postgis_geom = dict_get (metadata fld) ''postgis_geometry'' (PyStr ''POINTZ'')
                 in Inr (AList.update key (Col (Column (Geometry postgis_geom 3 has_index))) mdl))
              else if field_type = ReferenceTableField then
                (case map_of mdl ''reference_table_name'' of
                   None \<Rightarrow> Inl (KeyError ''reference_table_name'')
                 | Some reference_table_name \<Rightarrow>
                     Inr (AList.update key
                            (Col ((Column BigInteger)\<lparr>col_foreign_key := Some (reference_key reference_table_name),
                                                       col_index := has_index\<rparr>))
                            (AList.delete ''reference_table_name'' mdl)))
              else Inr (AList.update key (Col ((Column t)\<lparr>col_index := has_index\<rparr>)) mdl))
         | None \<Rightarrow> Inl (InvalidSchemaField field_type))"

text \<open>The loop of \<^verbatim>\<open>create_table_dict\<close> over the declared fields.\<close>

fun add_fields ::
  "package \<Rightarrow> table_metadata \<Rightarrow> table_dict \<Rightarrow> (string \<times> field) list \<Rightarrow> error + table_dict" where
  "add_fields pkg tmd mdl [] = Inr mdl"
| "add_fields pkg tmd mdl ((key, fld) # rest) =
     (if \<not> truthy (dict_get (metadata fld) ''drop_column'' (PyBool False)) then
        (case validate_metadata pkg mdl fld tmd of
           Inl e \<Rightarrow> Inl e
         | Inr mdl1 \<Rightarrow>
             (case add_column mdl1 key fld of
                Inl e \<Rightarrow> Inl e
              | Inr mdl2 \<Rightarrow> add_fields pkg tmd mdl2 rest))
      else add_fields pkg tmd mdl rest)"

text \<open>\<^verbatim>\<open>if segmentation_source:\<close> for \<^verbatim>\<open>None\<close> or a string.\<close>

fun truthy_source :: "string option \<Rightarrow> bool" where
  "truthy_source None = False"
| "truthy_source (Some s) = (s \<noteq> [])"

text \<open>\<^verbatim>\<open>model.update({...})\<close>: the items are stored one by one, in their order.\<close>

definition dict_update :: "table_dict \<Rightarrow> table_dict \<Rightarrow> table_dict" where
  "dict_update mdl items = foldl (\<lambda>d (k, v). AList.update k v d) mdl items"

definition create_table_dict ::
  "package \<Rightarrow> string \<Rightarrow> schema \<Rightarrow> string option \<Rightarrow> table_metadata \<Rightarrow> bool \<Rightarrow> error + table_dict" where
  "create_table_dict pkg table_name Schema segmentation_source tmd with_crud_columns =
     (let mdl = [];
          mdl =
            (case (if truthy_source segmentation_source then segmentation_source else None) of
               Some source \<Rightarrow>
                 dict_update mdl
                   [(''__tablename__'', Name (table_name @ ''__'' @ source)),
                    (''id'', Col ((Column BigInteger)
                               \<lparr>col_foreign_key := Some (ForeignKey (table_name @ ''.id'')),
                                col_primary_key := True\<rparr>)),
                    (''__mapper_args__'', MapperArgs (table_name @ ''__'' @ source) True)]
             | None \<Rightarrow>
                 dict_update mdl
                   [(''__tablename__'', Name table_name),
                    (''id'', Col ((Column BigInteger)\<lparr>col_primary_key := True\<rparr>)),
                    (''__mapper_args__'', MapperArgs table_name True)]);
          mdl =
            (if with_crud_columns then
               dict_update mdl
                 [(''created'', Col ((Column DateTime)
                                  \<lparr>col_index := PyBool True, col_nullable := Some False\<rparr>)),
                  (''deleted'', Col ((Column DateTime)\<lparr>col_index := PyBool True\<rparr>)),
                  (''superceded_id'', Col (Column BigInteger))]
             else mdl)
      in add_fields pkg tmd mdl (declared_fields Schema))"

subsection \<open>The entry points\<close>

text \<open>
  A call that changes the registry or makes a class returns its result, or the exception
  it raises, together with the state it leaves.
\<close>

definition create_sqlalchemy_model ::
  "package \<Rightarrow> state \<Rightarrow> string \<Rightarrow> schema \<Rightarrow> string option \<Rightarrow> table_metadata \<Rightarrow> bool \<Rightarrow>
   (error + model) \<times> state" where
  "create_sqlalchemy_model pkg s table_name Schema segmentation_source tmd with_crud_columns =
     (case create_table_dict pkg table_name Schema segmentation_source tmd with_crud_columns of
        Inl e \<Rightarrow> (Inl e, s)
      | Inr table_dict \<Rightarrow>
          (case map_of table_dict ''__tablename__'' of
             Some (Name table_name') \<Rightarrow> new_class pkg s table_name' Base table_dict
           | _ \<Rightarrow> (Inl TypeError, s)))"

definition make_model_from_schema ::
  "package \<Rightarrow> state \<Rightarrow> string \<Rightarrow> schema \<Rightarrow> string option \<Rightarrow> table_metadata \<Rightarrow> bool \<Rightarrow>
   (error + model) \<times> state" where
  "make_model_from_schema pkg s table_name Schema segmentation_source tmd with_crud_columns =
     (if \<not> contains_model (sqlalchemy_models s) table_name False then
        (case split_annotation_schema pkg Schema of
           Inl e \<Rightarrow> (Inl e, s)
         | Inr (annotation_columns, segmentation_columns) \<Rightarrow>
             (case (if truthy_source segmentation_source
                    then create_sqlalchemy_model pkg s table_name segmentation_columns
                           segmentation_source tmd with_crud_columns
                    else create_sqlalchemy_model pkg s table_name annotation_columns
                           None tmd with_crud_columns) of
                (Inl e, s') \<Rightarrow> (Inl e, s')
              | (Inr m, s') \<Rightarrow>
                  (let s'' = s'\<lparr>sqlalchemy_models := set_model (sqlalchemy_models s') table_name m False\<rparr>
                   in (get_model (sqlalchemy_models s'') table_name False, s''))))
      else (get_model (sqlalchemy_models s) table_name False, s))"

definition make_sqlalchemy_model ::
  "package \<Rightarrow> state \<Rightarrow> string \<Rightarrow> string \<Rightarrow> string option \<Rightarrow> table_metadata \<Rightarrow> bool \<Rightarrow>
   (error + model) \<times> state" where
  "make_sqlalchemy_model pkg s table_name schema_type segmentation_source tmd with_crud_columns =
     (case get_schema pkg schema_type of
        Inl e \<Rightarrow> (Inl e, s)
      | Inr Schema \<Rightarrow>
          make_model_from_schema pkg s table_name Schema segmentation_source tmd with_crud_columns)"

definition make_flat_model_from_schema ::
  "package \<Rightarrow> state \<Rightarrow> string \<Rightarrow> schema \<Rightarrow> string option \<Rightarrow> table_metadata \<Rightarrow>
   (error + model) \<times> state" where
  "make_flat_model_from_schema pkg s table_name Schema segmentation_source tmd =
     (if \<not> contains_model (sqlalchemy_models s) table_name True then
        (let flat_schema = create_flattened_schema pkg Schema in
         case create_table_dict pkg table_name flat_schema segmentation_source tmd False of
           Inl e \<Rightarrow> (Inl e, s)
         | Inr annotation_dict \<Rightarrow>
             (case new_class pkg s table_name FlatBase annotation_dict of
                (Inl e, s') \<Rightarrow> (Inl e, s')
              | (Inr FlatAnnotationModel, s') \<Rightarrow>
                  (let s'' = s'\<lparr>sqlalchemy_models :=
                                  set_model (sqlalchemy_models s') table_name FlatAnnotationModel True\<rparr>
                   in (get_model (sqlalchemy_models s'') table_name True, s''))))
      else (get_model (sqlalchemy_models s) table_name True, s))"

definition make_flat_model ::
  "package \<Rightarrow> state \<Rightarrow> string \<Rightarrow> string \<Rightarrow> string option \<Rightarrow> table_metadata \<Rightarrow>
   (error + model) \<times> state" where
  "make_flat_model pkg s table_name schema_type segmentation_source tmd =
     (case get_schema pkg schema_type of
        Inl e \<Rightarrow> (Inl e, s)
      | Inr Schema \<Rightarrow>
          make_flat_model_from_schema pkg s table_name Schema segmentation_source tmd)"

text \<open>
  The loop of \<^verbatim>\<open>make_dataset_models\<close> over the pairs, with the dictionary it fills.
  \<open>metadata_dict\<close> is \<open>None\<close> for Python's \<^verbatim>\<open>None\<close> (the default); \<^verbatim>\<open>metadata_dict.get\<close>
  gives \<^verbatim>\<open>None\<close> for a table that has no metadata.
\<close>

fun dataset_loop ::
  "package \<Rightarrow> state \<Rightarrow> (string \<times> model) list \<Rightarrow> (string \<times> string) list \<Rightarrow> string option \<Rightarrow>
   (string \<times> table_metadata) list option \<Rightarrow> bool \<Rightarrow> (error + (string \<times> model) list) \<times> state" where
  "dataset_loop pkg s dataset_dict [] segmentation_source metadata_dict with_crud_columns =
     (Inr dataset_dict, s)"
| "dataset_loop pkg s dataset_dict ((schema_name, table_name) # rest) segmentation_source
       metadata_dict with_crud_columns =
     (let model_key = table_name in
      case metadata_dict of
        None \<Rightarrow> (Inl AttributeError, s)
      | Some md \<Rightarrow>
          (let tmd = (case map_of md model_key of None \<Rightarrow> TM_None | Some t \<Rightarrow> t) in
           case make_sqlalchemy_model pkg s table_name schema_name segmentation_source tmd
                  with_crud_columns of
             (Inl e, s') \<Rightarrow> (Inl e, s')
           | (Inr m, s') \<Rightarrow>
               dataset_loop pkg s' (AList.update model_key m dataset_dict) rest segmentation_source
                 metadata_dict with_crud_columns))"

definition make_dataset_models ::
  "package \<Rightarrow> state \<Rightarrow> string \<Rightarrow> (string \<times> string) list \<Rightarrow> string option \<Rightarrow> bool \<Rightarrow>
   (string \<times> table_metadata) list option \<Rightarrow> bool \<Rightarrow> (error + (string \<times> model) list) \<times> state" where
  "make_dataset_models pkg s aligned_volume schemas_and_tables segmentation_source
       include_contacts metadata_dict with_crud_columns =
     (case validate_types pkg schemas_and_tables of
        Inl e \<Rightarrow> (Inl e, s)
      | Inr _ \<Rightarrow>
          (case dataset_loop pkg s [] schemas_and_tables segmentation_source metadata_dict
                  with_crud_columns of
             (Inl e, s') \<Rightarrow> (Inl e, s')
           | (Inr dataset_dict, s') \<Rightarrow>
               (if include_contacts then
                  (let table_name = aligned_volume @ ''__contact'' in
                   case make_model_from_schema pkg s' table_name (Contact pkg) None TM_None True of
                     (Inl e, s'') \<Rightarrow> (Inl e, s'')
                   | (Inr contact_model, s'') \<Rightarrow>
                       (Inr (AList.update ''contact'' contact_model dataset_dict), s''))
                else (Inr dataset_dict, s'))))"

subsection \<open>Vocabulary of the claims\<close>

text \<open>
  The three tests the code makes on a field's metadata, under the names the claims use.
  They abbreviate the expressions of the source: \<^verbatim>\<open>field.metadata.get("drop_column", False)\<close>,
  \<^verbatim>\<open>field.metadata.get("metadata") == MetaDataTypes.REFERENCE.value\<close> and
  \<^verbatim>\<open>field.metadata.get("segmentation_field")\<close>.
\<close>

abbreviation drop_column :: "field \<Rightarrow> bool" where
  "drop_column fld \<equiv> truthy (dict_get (metadata fld) ''drop_column'' (PyBool False))"

abbreviation is_reference :: "package \<Rightarrow> field \<Rightarrow> bool" where
  "is_reference pkg fld \<equiv>
     py_eq (dict_get (metadata fld) ''metadata'' PyNone) (MetaDataTypes_REFERENCE_value pkg)"


text \<open>
  The registry holds one class per key: every class made so far sits under exactly one
  key of one of the two containers.
\<close>

definition one_build_per_key :: "state \<Rightarrow> bool" where
  "one_build_per_key s =
     (distinct (map fst (container (sqlalchemy_models s))) \<and>
      distinct (map fst (flat_container (sqlalchemy_models s))) \<and>
      classes_made s =
        length (container (sqlalchemy_models s)) + length (flat_container (sqlalchemy_models s)))"

text \<open>
  The test that guards the builder in \<^verbatim>\<open>make_model_from_schema\<close> (\<open>flat = False\<close>) and in
  \<^verbatim>\<open>make_flat_model_from_schema\<close> (\<open>flat = True\<close>): a call for the table name in the state
  \<open>s\<close> runs the builder if and only if it holds.
\<close>

definition runs_builder :: "state \<Rightarrow> string \<Rightarrow> bool \<Rightarrow> bool" where
  "runs_builder s table_name flat = (\<not> contains_model (sqlalchemy_models s) table_name flat)"

text \<open>
  \<open>extends s s'\<close>: every entry of the registry in \<open>s\<close> is in \<open>s'\<close> with the same
  object, and \<open>s'\<close> has one build per key if \<open>s\<close> has.
\<close>

definition extends :: "state \<Rightarrow> state \<Rightarrow> bool" where
  "extends s s' =
     ((\<forall>t m. map_of (container (sqlalchemy_models s)) t = Some m \<longrightarrow>
             map_of (container (sqlalchemy_models s')) t = Some m) \<and>
      (\<forall>t m. map_of (flat_container (sqlalchemy_models s)) t = Some m \<longrightarrow>
             map_of (flat_container (sqlalchemy_models s')) t = Some m) \<and>
      (one_build_per_key s \<longrightarrow> one_build_per_key s'))"

text \<open>
  A client of the module: a sequence of calls of its entry points, each with its
  arguments. \<open>run\<close> gives the state of the module after the calls, whether they return
  or raise.
\<close>

datatype call =
    Make_model_from_schema string schema "string option" table_metadata bool
  | Make_sqlalchemy_model string string "string option" table_metadata bool
  | Make_flat_model_from_schema string schema "string option" table_metadata
  | Make_flat_model string string "string option" table_metadata
  | Make_dataset_models string "(string \<times> string) list" "string option" bool
      "(string \<times> table_metadata) list option" bool

fun state_after :: "package \<Rightarrow> state \<Rightarrow> call \<Rightarrow> state" where
  "state_after pkg s (Make_model_from_schema t S src tmd crud) =
     snd (make_model_from_schema pkg s t S src tmd crud)"
| "state_after pkg s (Make_sqlalchemy_model t ty src tmd crud) =
     snd (make_sqlalchemy_model pkg s t ty src tmd crud)"
| "state_after pkg s (Make_flat_model_from_schema t S src tmd) =
     snd (make_flat_model_from_schema pkg s t S src tmd)"
| "state_after pkg s (Make_flat_model t ty src tmd) =
     snd (make_flat_model pkg s t ty src tmd)"
| "state_after pkg s (Make_dataset_models av sts src inc md crud) =
     snd (make_dataset_models pkg s av sts src inc md crud)"

definition run :: "package \<Rightarrow> state \<Rightarrow> call list \<Rightarrow> state" where
  "run pkg s calls = foldl (state_after pkg) s calls"

text \<open>
  The dictionary that \<^verbatim>\<open>create_table_dict\<close> holds before its loop over the fields, in closed
  form: the three entries of the header, and the three audit columns. Lemma
  \<open>create_table_dict_unfold\<close> below shows that this is what the code builds.
\<close>

definition table_header :: "string \<Rightarrow> string option \<Rightarrow> table_dict" where
  "table_header table_name segmentation_source =
     (case (if truthy_source segmentation_source then segmentation_source else None) of
        Some source \<Rightarrow>
          [(''__tablename__'', Name (table_name @ ''__'' @ source)),
           (''id'', Col \<lparr>col_type = BigInteger,
                         col_foreign_key = Some (ForeignKey (table_name @ ''.id'')),
                         col_primary_key = True, col_index = PyNone, col_nullable = None\<rparr>),
           (''__mapper_args__'', MapperArgs (table_name @ ''__'' @ source) True)]
      | None \<Rightarrow>
          [(''__tablename__'', Name table_name),
           (''id'', Col \<lparr>col_type = BigInteger, col_foreign_key = None,
                         col_primary_key = True, col_index = PyNone, col_nullable = None\<rparr>),
           (''__mapper_args__'', MapperArgs table_name True)])"

definition crud_columns :: table_dict where
  "crud_columns =
     [(''created'', Col \<lparr>col_type = DateTime, col_foreign_key = None, col_primary_key = False,
                         col_index = PyBool True, col_nullable = Some False\<rparr>),
      (''deleted'', Col \<lparr>col_type = DateTime, col_foreign_key = None, col_primary_key = False,
                         col_index = PyBool True, col_nullable = None\<rparr>),
      (''superceded_id'', Col \<lparr>col_type = BigInteger, col_foreign_key = None,
                         col_primary_key = False, col_index = PyNone, col_nullable = None\<rparr>)]"

text \<open>
  The exception that \<^verbatim>\<open>validate_metadata\<close> raises for a reference field, by the table
  metadata it was given: the first message when the metadata is not a dict, the second
  when it is a dict.
\<close>

definition missing_reference_error :: "table_metadata \<Rightarrow> error" where
  "missing_reference_error tmd =
     InvalidTableMetaDataException
       (case tmd of TM_dict dd \<Rightarrow> Reference_table_not_specified dd | _ \<Rightarrow> No_metadata_provided)"


subsection \<open>Inputs of the examples\<close>

text \<open>
  A package in which \<^verbatim>\<open>MetaDataTypes.REFERENCE.value\<close> is the string \<^verbatim>\<open>reference\<close>, two
  schema types are registered, and the flattener leaves a schema that is flat already
  as it is.
\<close>

definition example_schema :: "(string \<times> field) list \<Rightarrow> schema" where
  "example_schema fs = \<lparr>schema_class_name = ''S'', declared_fields = fs\<rparr>"

text \<open>
  The mapping of a class, for the examples. The columns it maps are the Column entries of
  the dict, under keys other than \<^verbatim>\<open>__tablename__\<close>, \<^verbatim>\<open>__mapper_args__\<close> and \<^verbatim>\<open>__table__\<close>. In
  this order: a column named \<^verbatim>\<open>metadata\<close> is refused (\<open>InvalidRequestError\<close>); a table
  name that the MetaData holds already is refused (\<open>InvalidRequestError\<close>); the table is
  written into the MetaData; a table without a primary-key column is refused
  (\<open>ArgumentError\<close>) and stays in the MetaData. A dict whose \<^verbatim>\<open>__tablename__\<close> is no string
  is refused as well; no example has one.
\<close>

definition mapped_columns :: "table_dict \<Rightarrow> (string \<times> column) list" where
  "mapped_columns d =
     List.map_filter
       (\<lambda>(k, e). case e of
                   Col c \<Rightarrow>
                     if k \<in> set [''__tablename__'', ''__mapper_args__'', ''__table__''] then None
                     else Some (k, c)
                 | _ \<Rightarrow> None) d"

definition declarative_checks ::
  "string list \<Rightarrow> string \<Rightarrow> table_dict \<Rightarrow> error option \<times> string list" where
  "declarative_checks tables name d =
     (if ''metadata'' \<in> set (map fst (mapped_columns d))
      then (Some (InvalidRequestError Attribute_name_metadata_reserved), tables)
      else
        (case map_of d ''__tablename__'' of
           Some (Name table_name) \<Rightarrow>
             if table_name \<in> set tables
             then (Some (InvalidRequestError (Table_already_defined table_name)), tables)
             else if \<not> list_ex (\<lambda>(k, c). col_primary_key c) (mapped_columns d)
             then (Some ArgumentError, tables @ [table_name])
             else (None, tables @ [table_name])
         | _ \<Rightarrow> (Some ArgumentError, tables)))"

definition example_package :: package where
  "example_package =
     \<lparr>MetaDataTypes_REFERENCE_value = PyStr ''reference'',
      get_types = [''bound_tag'', ''cell_type''],
      get_schema =
        (\<lambda>n. if n \<in> set [''bound_tag'', ''cell_type''] then Inr (example_schema [])
             else Inl (UnknownAnnotationTypeException [n])),
      create_flattened_schema = (\<lambda>S. S),
      Contact = example_schema [],
      declarative_type = declarative_checks\<rparr>"

definition plain_field :: "field_class \<Rightarrow> field" where
  "plain_field c = \<lparr>field_type = c, metadata = []\<rparr>"

definition reference_field :: "field_class \<Rightarrow> field" where
  "reference_field c = \<lparr>field_type = c, metadata = [(''metadata'', PyStr ''reference'')]\<rparr>"

definition dropped_field :: "field_class \<Rightarrow> field" where
  "dropped_field c = \<lparr>field_type = c, metadata = [(''drop_column'', PyBool True)]\<rparr>"

text \<open>
  The schema of the spec's scenario, flattened: a point, two strings, and the
  segmentation field \<^verbatim>\<open>supervoxel_id\<close>, a reference.
\<close>

definition scenario_schema :: schema where
  "scenario_schema =
     example_schema
       [(''pt'', \<lparr>field_type = PostGISField, metadata = [(''index'', PyBool True)]\<rparr>),
        (''category'', plain_field mm_String),
        (''classification_system'', plain_field mm_String),
        (''supervoxel_id'',
         \<lparr>field_type = ReferenceTableField,
          metadata = [(''segmentation_field'', PyBool True), (''metadata'', PyStr ''reference'')]\<rparr>)]"

definition base_metadata :: table_metadata where
  "base_metadata = TM_dict [(''reference_table'', PyStr ''base'')]"

text \<open>
  A state by the contents of its two containers and the tables of the two MetaData
  objects.
\<close>

definition state_with ::
  "(string \<times> model) list \<Rightarrow> (string \<times> model) list \<Rightarrow> string list \<Rightarrow> string list \<Rightarrow> state" where
  "state_with full flat base_tables flat_tables =
     \<lparr>sqlalchemy_models = \<lparr>container = full, flat_container = flat\<rparr>,
      Base_metadata = base_tables, FlatBase_metadata = flat_tables,
      classes_made = length full + length flat\<rparr>"

text \<open>The segmentation table of the scenario, for the source \<^verbatim>\<open>seg1\<close> and the table \<^verbatim>\<open>T\<close>.\<close>

definition scenario_segmentation_dict :: table_dict where
  "scenario_segmentation_dict =
     [(''__tablename__'', Name ''T__seg1''),
      (''id'', Col \<lparr>col_type = BigInteger, col_foreign_key = Some (ForeignKey ''T.id''),
                    col_primary_key = True, col_index = PyNone, col_nullable = None\<rparr>),
      (''__mapper_args__'', MapperArgs ''T__seg1'' True),
      (''created'', Col \<lparr>col_type = DateTime, col_foreign_key = None,
                    col_primary_key = False, col_index = PyBool True, col_nullable = Some False\<rparr>),
      (''deleted'', Col \<lparr>col_type = DateTime, col_foreign_key = None,
                    col_primary_key = False, col_index = PyBool True, col_nullable = None\<rparr>),
      (''superceded_id'', Col \<lparr>col_type = BigInteger, col_foreign_key = None,
                    col_primary_key = False, col_index = PyNone, col_nullable = None\<rparr>),
      (''supervoxel_id'', Col \<lparr>col_type = BigInteger, col_foreign_key = Some (ForeignKey ''base.id''),
                    col_primary_key = False, col_index = PyBool False, col_nullable = None\<rparr>)]"

definition scenario_segmentation_model :: model where
  "scenario_segmentation_model =
     \<lparr>object_id = 0, class_name = ''T__seg1'', class_base = Base,
      class_dict = scenario_segmentation_dict\<rparr>"

text \<open>The flat model of the scenario, and the states after one and after both builds.\<close>

definition scenario_flat_dict :: table_dict where
  "scenario_flat_dict =
     [(''__tablename__'', Name ''T''),
      (''id'', Col \<lparr>col_type = BigInteger, col_foreign_key = None,
                    col_primary_key = True, col_index = PyNone, col_nullable = None\<rparr>),
      (''__mapper_args__'', MapperArgs ''T'' True),
      (''pt'', Col \<lparr>col_type = Geometry (PyStr ''POINTZ'') 3 (PyBool True), col_foreign_key = None,
                    col_primary_key = False, col_index = PyNone, col_nullable = None\<rparr>),
      (''category'', Col \<lparr>col_type = String_t, col_foreign_key = None,
                    col_primary_key = False, col_index = PyBool False, col_nullable = None\<rparr>),
      (''classification_system'', Col \<lparr>col_type = String_t, col_foreign_key = None,
                    col_primary_key = False, col_index = PyBool False, col_nullable = None\<rparr>),
      (''supervoxel_id'', Col \<lparr>col_type = BigInteger, col_foreign_key = Some (ForeignKey ''base.id''),
                    col_primary_key = False, col_index = PyBool False, col_nullable = None\<rparr>)]"

definition scenario_flat_model :: model where
  "scenario_flat_model =
     \<lparr>object_id = 1, class_name = ''T'', class_base = FlatBase, class_dict = scenario_flat_dict\<rparr>"

definition state_one :: state where
  "state_one = state_with [(''T'', scenario_segmentation_model)] [] [''T__seg1''] []"

definition state_both :: state where
  "state_both =
     state_with [(''T'', scenario_segmentation_model)] [(''T'', scenario_flat_model)]
       [''T__seg1''] [''T'']"



section \<open>Properties\<close>

subsection \<open>One field at a time\<close>

lemma validate_metadata_other:
  "validate_metadata pkg m f tmd = Inr m1 \<Longrightarrow> k \<noteq> ''reference_table_name'' \<Longrightarrow> map_of m1 k = map_of m k"
  by (auto simp: validate_metadata_def Let_def update_conv' split: if_splits table_metadata.splits option.splits)

lemma validate_metadata_ref:
  assumes "validate_metadata pkg m f tmd = Inr m1" "is_reference pkg f"
  shows "\<exists>d r. tmd = TM_dict d \<and> map_of d ''reference_table'' = Some r \<and>
               m1 = AList.update ''reference_table_name'' (Raw r) m"
  using assms
  by (auto simp: validate_metadata_def Let_def split: if_splits table_metadata.splits option.splits)

lemma validate_metadata_noref:
  "\<not> is_reference pkg f \<Longrightarrow> validate_metadata pkg m f tmd = Inr m"
  by (simp add: validate_metadata_def Let_def)

lemma validate_metadata_distinct:
  "validate_metadata pkg m f tmd = Inr m1 \<Longrightarrow> distinct (map fst m) \<Longrightarrow> distinct (map fst m1)"
  by (auto simp: validate_metadata_def Let_def distinct_update split: if_splits table_metadata.splits option.splits)

lemma add_column_other:
  "add_column m1 key f = Inr m2 \<Longrightarrow> k \<noteq> key \<Longrightarrow> k \<noteq> ''reference_table_name'' \<Longrightarrow>
   map_of m2 k = map_of m1 k"
  by (auto simp: add_column_def Let_def update_conv' delete_conv' split: if_splits option.splits)

lemma add_column_key:
  "add_column m1 key f = Inr m2 \<Longrightarrow> \<exists>c. map_of m2 key = Some (Col c)"
  by (auto simp: add_column_def Let_def update_conv' split: if_splits option.splits)

lemma add_column_pending:
  "add_column m1 key f = Inr m2 \<Longrightarrow> key \<noteq> ''reference_table_name'' \<Longrightarrow>
   field_type f \<noteq> ReferenceTableField \<Longrightarrow>
   map_of m2 ''reference_table_name'' = map_of m1 ''reference_table_name''"
  by (auto simp: add_column_def Let_def update_conv' split: if_splits option.splits)

lemma add_column_distinct:
  "add_column m1 key f = Inr m2 \<Longrightarrow> distinct (map fst m1) \<Longrightarrow> distinct (map fst m2)"
  by (auto simp: add_column_def Let_def distinct_update distinct_delete split: if_splits option.splits)

lemma add_fields_append:
  "add_fields pkg tmd m (xs @ ys) =
     (case add_fields pkg tmd m xs of Inl e \<Rightarrow> Inl e | Inr m' \<Rightarrow> add_fields pkg tmd m' ys)"
  by (induction xs arbitrary: m) (auto split: sum.splits)

lemma add_fields_distinct:
  "add_fields pkg tmd m fs = Inr m' \<Longrightarrow> distinct (map fst m) \<Longrightarrow> distinct (map fst m')"
proof (induction fs arbitrary: m)
  case Nil
  then show ?case by simp
next
  case (Cons p fs)
  obtain k f where p: "p = (k, f)" by (cases p)
  show ?case
  proof (cases "drop_column f")
    case True
    with Cons p show ?thesis by simp
  next
    case False
    with Cons.prems p obtain m1 m2 where
      "validate_metadata pkg m f tmd = Inr m1" "add_column m1 k f = Inr m2"
      "add_fields pkg tmd m2 fs = Inr m'"
      by (auto split: sum.splits)
    with Cons show ?thesis
      by (blast intro: validate_metadata_distinct add_column_distinct)
  qed
qed

text \<open>A key that no retained field has, and that is not the pending reference key.\<close>
lemma add_fields_other:
  "add_fields pkg tmd m fs = Inr m' \<Longrightarrow> k \<noteq> ''reference_table_name'' \<Longrightarrow>
   \<forall>(k', f) \<in> set fs. \<not> drop_column f \<longrightarrow> k' \<noteq> k \<Longrightarrow>
   map_of m' k = map_of m k"
proof (induction fs arbitrary: m)
  case Nil
  then show ?case by simp
next
  case (Cons p fs)
  obtain k0 f where p: "p = (k0, f)" by (cases p)
  from Cons.prems(3) have rest: "\<forall>(k', f) \<in> set fs. \<not> drop_column f \<longrightarrow> k' \<noteq> k" by simp
  show ?case
  proof (cases "drop_column f")
    case True
    with Cons.prems(1) p have "add_fields pkg tmd m fs = Inr m'" by simp
    from Cons.IH [OF this Cons.prems(2) rest] show ?thesis .
  next
    case False
    with Cons.prems p obtain m1 m2 where
      v: "validate_metadata pkg m f tmd = Inr m1" and a: "add_column m1 k0 f = Inr m2" and
      r: "add_fields pkg tmd m2 fs = Inr m'"
      by (auto split: sum.splits)
    from False Cons.prems(3) p have "k \<noteq> k0" by auto
    with validate_metadata_other [OF v Cons.prems(2)] add_column_other [OF a _ Cons.prems(2)]
    have "map_of m2 k = map_of m k" by simp
    with Cons.IH [OF r Cons.prems(2) rest] show ?thesis by simp
  qed
qed

text \<open>No retained field has the key, and the key holds no Column: it holds none at the end.\<close>
lemma add_fields_no_column:
  "add_fields pkg tmd m fs = Inr m' \<Longrightarrow>
   \<forall>(k', f) \<in> set fs. \<not> drop_column f \<longrightarrow> k' \<noteq> k \<Longrightarrow>
   \<forall>c. map_of m k \<noteq> Some (Col c) \<Longrightarrow> map_of m' k \<noteq> Some (Col c)"
proof (induction fs arbitrary: m)
  case Nil
  then show ?case by simp
next
  case (Cons p fs)
  obtain k0 f where p: "p = (k0, f)" by (cases p)
  from Cons.prems(2) have rest: "\<forall>(k', f) \<in> set fs. \<not> drop_column f \<longrightarrow> k' \<noteq> k" by simp
  show ?case
  proof (cases "drop_column f")
    case True
    with Cons.prems(1) p have "add_fields pkg tmd m fs = Inr m'" by simp
    from Cons.IH [OF this rest Cons.prems(3)] show ?thesis .
  next
    case False
    with Cons.prems p obtain m1 m2 where
      v: "validate_metadata pkg m f tmd = Inr m1" and a: "add_column m1 k0 f = Inr m2" and
      r: "add_fields pkg tmd m2 fs = Inr m'"
      by (auto split: sum.splits)
    from False Cons.prems(2) p have ne: "k0 \<noteq> k" by auto
    from v Cons.prems(3) have "\<forall>c. map_of m1 k \<noteq> Some (Col c)"
      by (auto simp: validate_metadata_def Let_def update_conv' split: if_splits table_metadata.splits option.splits)
    with a ne have "\<forall>c. map_of m2 k \<noteq> Some (Col c)"
      by (auto simp: add_column_def Let_def update_conv' delete_conv' split: if_splits option.splits)
    from Cons.IH [OF r rest this] show ?thesis .
  qed
qed

subsection \<open>The registry\<close>

lemma update_fresh:
  "k \<notin> fst ` set al \<Longrightarrow> AList.update k v al = al @ [(k, v)]"
  by (induction al) auto

lemma contains_model_iff:
  "contains_model st t False \<longleftrightarrow> map_of (container st) t \<noteq> None"
  "contains_model st t True \<longleftrightarrow> map_of (flat_container st) t \<noteq> None"
  by (simp_all add: contains_model_def map_of_eq_None_iff)

lemma make_model_from_schema_hit:
  "map_of (container (sqlalchemy_models s)) t = Some m \<Longrightarrow>
   make_model_from_schema pkg s t S src tmd crud = (Inr m, s)"
  by (simp add: make_model_from_schema_def contains_model_iff get_model_def)

lemma make_flat_model_from_schema_hit:
  "map_of (flat_container (sqlalchemy_models s)) t = Some m \<Longrightarrow>
   make_flat_model_from_schema pkg s t S src tmd = (Inr m, s)"
  by (simp add: make_flat_model_from_schema_def contains_model_iff get_model_def)

lemma new_class_cases:
  assumes "new_class pkg s n b d = (r, s')"
  shows "sqlalchemy_models s' = sqlalchemy_models s \<and>
         ((\<exists>e. r = Inl e \<and> classes_made s' = classes_made s) \<or>
          (r = Inr \<lparr>object_id = classes_made s, class_name = n, class_base = b, class_dict = d\<rparr> \<and>
           classes_made s' = Suc (classes_made s)))"
  using assms
  by (cases b) (auto simp: new_class_def Let_def split: prod.splits option.splits)

lemma create_sqlalchemy_model_cases:
  assumes "create_sqlalchemy_model pkg s t S src tmd crud = (r, s')"
  shows "sqlalchemy_models s' = sqlalchemy_models s \<and>
         ((\<exists>e. r = Inl e \<and> classes_made s' = classes_made s) \<or>
          (\<exists>d n. r = Inr \<lparr>object_id = classes_made s, class_name = n, class_base = Base,
                           class_dict = d\<rparr> \<and>
                 create_table_dict pkg t S src tmd crud = Inr d \<and>
                 map_of d ''__tablename__'' = Some (Name n) \<and>
                 classes_made s' = Suc (classes_made s)))"
proof (cases "create_table_dict pkg t S src tmd crud")
  case (Inl e)
  with assms show ?thesis by (auto simp: create_sqlalchemy_model_def)
next
  case (Inr d)
  show ?thesis
  proof (cases "\<exists>n. map_of d ''__tablename__'' = Some (Name n)")
    case True
    then obtain n where n: "map_of d ''__tablename__'' = Some (Name n)" ..
    with assms Inr have "new_class pkg s n Base d = (r, s')"
      by (simp add: create_sqlalchemy_model_def)
    from new_class_cases [OF this] Inr n show ?thesis by auto
  next
    case False
    with assms Inr have "r = Inl TypeError \<and> s' = s"
      by (auto simp: create_sqlalchemy_model_def split: option.splits entry.splits)
    then show ?thesis by simp
  qed
qed

lemma make_model_from_schema_on_miss:
  assumes "map_of (container (sqlalchemy_models s)) t = None"
      and "split_annotation_schema pkg S = Inr (A, G)"
  shows "make_model_from_schema pkg s t S src tmd crud =
     (case create_sqlalchemy_model pkg s t (if truthy_source src then G else A)
             (if truthy_source src then src else None) tmd crud of
        (Inl e, s') \<Rightarrow> (Inl e, s')
      | (Inr m, s') \<Rightarrow>
          (Inr m, s'\<lparr>sqlalchemy_models := (sqlalchemy_models s')
                       \<lparr>container := container (sqlalchemy_models s') @ [(t, m)]\<rparr>\<rparr>))"
proof -
  let ?H = "if truthy_source src then G else A"
  let ?src = "if truthy_source src then src else None"
  from assms(1) have nc: "\<not> contains_model (sqlalchemy_models s) t False"
    by (simp add: contains_model_iff)
  have call: "(if truthy_source src then create_sqlalchemy_model pkg s t G src tmd crud
               else create_sqlalchemy_model pkg s t A None tmd crud) =
              create_sqlalchemy_model pkg s t ?H ?src tmd crud"
    by simp
  have eq: "make_model_from_schema pkg s t S src tmd crud =
     (case create_sqlalchemy_model pkg s t ?H ?src tmd crud of
        (Inl e, s') \<Rightarrow> (Inl e, s')
      | (Inr m, s') \<Rightarrow>
          (let s'' = s'\<lparr>sqlalchemy_models := set_model (sqlalchemy_models s') t m False\<rparr>
           in (get_model (sqlalchemy_models s'') t False, s'')))"
    using nc assms(2) by (simp only: make_model_from_schema_def call) simp
  obtain r1 s1 where c: "create_sqlalchemy_model pkg s t ?H ?src tmd crud = (r1, s1)"
    by (cases "create_sqlalchemy_model pkg s t ?H ?src tmd crud")
  from create_sqlalchemy_model_cases [OF c] have same: "sqlalchemy_models s1 = sqlalchemy_models s"
    by simp
  from assms(1) have "t \<notin> fst ` set (container (sqlalchemy_models s))"
    by (simp add: map_of_eq_None_iff)
  then have upd: "AList.update t m (container (sqlalchemy_models s)) =
                  container (sqlalchemy_models s) @ [(t, m)]" for m
    by (rule update_fresh)
  show ?thesis
  proof (cases r1)
    case (Inl e)
    with c show ?thesis by (simp only: eq sum.case prod.case)
  next
    case (Inr m)
    with c same assms(1) show ?thesis
      by (simp add: eq set_model_def get_model_def upd Let_def map_add_def)
  qed
qed

text \<open>What a call of \<^verbatim>\<open>make_model_from_schema\<close> does when the table name is not cached.\<close>

lemma make_model_from_schema_miss:
  assumes "map_of (container (sqlalchemy_models s)) t = None"
      and "make_model_from_schema pkg s t S src tmd crud = (r, s')"
  shows "(\<exists>e. r = Inl e \<and> sqlalchemy_models s' = sqlalchemy_models s \<and>
              classes_made s' = classes_made s) \<or>
         (\<exists>m. r = Inr m \<and> object_id m = classes_made s \<and> class_base m = Base \<and>
              sqlalchemy_models s' = (sqlalchemy_models s)
                \<lparr>container := container (sqlalchemy_models s) @ [(t, m)]\<rparr> \<and>
              classes_made s' = Suc (classes_made s))"
proof (cases "split_annotation_schema pkg S")
  case (Inl e)
  with assms show ?thesis
    by (auto simp: make_model_from_schema_def contains_model_iff)
next
  case (Inr p)
  obtain A G where p: "p = (A, G)" by (cases p)
  let ?H = "if truthy_source src then G else A"
  let ?src = "if truthy_source src then src else None"
  obtain r1 s1 where c: "create_sqlalchemy_model pkg s t ?H ?src tmd crud = (r1, s1)"
    by (cases "create_sqlalchemy_model pkg s t ?H ?src tmd crud")
  note cs = create_sqlalchemy_model_cases [OF c]
  note eq = make_model_from_schema_on_miss [OF assms(1) Inr [unfolded p], of src tmd crud]
  show ?thesis
  proof (cases r1)
    case (Inl e)
    with eq c assms(2) have "r = Inl e" "s' = s1" by simp_all
    with cs Inl show ?thesis by auto
  next
    case (Inr m)
    with eq c assms(2) have "r = Inr m"
      "s' = s1\<lparr>sqlalchemy_models := (sqlalchemy_models s1)
                       \<lparr>container := container (sqlalchemy_models s1) @ [(t, m)]\<rparr>\<rparr>"
      by simp_all
    with cs Inr show ?thesis by auto
  qed
qed

lemma make_flat_model_from_schema_miss:
  assumes "map_of (flat_container (sqlalchemy_models s)) t = None"
      and "make_flat_model_from_schema pkg s t S src tmd = (r, s')"
  shows "(\<exists>e. r = Inl e \<and> sqlalchemy_models s' = sqlalchemy_models s \<and>
              classes_made s' = classes_made s) \<or>
         (\<exists>m. r = Inr m \<and> object_id m = classes_made s \<and> class_base m = FlatBase \<and>
              sqlalchemy_models s' = (sqlalchemy_models s)
                \<lparr>flat_container := flat_container (sqlalchemy_models s) @ [(t, m)]\<rparr> \<and>
              classes_made s' = Suc (classes_made s))"
proof -
  from assms(1) have nc: "\<not> contains_model (sqlalchemy_models s) t True"
    by (simp add: contains_model_iff)
  show ?thesis
  proof (cases "create_table_dict pkg t (create_flattened_schema pkg S) src tmd False")
    case (Inl e)
    with assms(2) nc show ?thesis by (auto simp: make_flat_model_from_schema_def)
  next
    case (Inr d)
    obtain r1 s1 where c: "new_class pkg s t FlatBase d = (r1, s1)"
      by (cases "new_class pkg s t FlatBase d")
    note cs = new_class_cases [OF c]
    then have same: "sqlalchemy_models s1 = sqlalchemy_models s" by simp
    from assms(1) have "t \<notin> fst ` set (flat_container (sqlalchemy_models s))"
      by (simp add: map_of_eq_None_iff)
    then have upd: "AList.update t m (flat_container (sqlalchemy_models s)) =
                    flat_container (sqlalchemy_models s) @ [(t, m)]" for m
      by (rule update_fresh)
    show ?thesis
    proof (cases r1)
      case (Inl e)
      with assms(2) nc Inr c have "r = Inl e" "s' = s1"
        by (simp_all add: make_flat_model_from_schema_def Let_def)
      with cs Inl show ?thesis by auto
    next
      case m: (Inr m)
      with assms(2) nc Inr c same assms(1) have "r = Inr m"
        "s' = s1\<lparr>sqlalchemy_models := (sqlalchemy_models s1)
                       \<lparr>flat_container := flat_container (sqlalchemy_models s1) @ [(t, m)]\<rparr>\<rparr>"
        by (simp_all add: make_flat_model_from_schema_def Let_def set_model_def get_model_def
              upd map_add_def)
      with cs m show ?thesis by auto
    qed
  qed
qed

lemma extends_refl: "extends s s"
  by (simp add: extends_def)

lemma extends_trans: "extends s s1 \<Longrightarrow> extends s1 s2 \<Longrightarrow> extends s s2"
  by (simp add: extends_def)

lemma extends_same:
  "sqlalchemy_models s' = sqlalchemy_models s \<Longrightarrow> classes_made s' = classes_made s \<Longrightarrow>
   extends s s'"
  by (simp add: extends_def one_build_per_key_def)

lemma extends_container:
  assumes "map_of (container (sqlalchemy_models s)) t = None"
      and "sqlalchemy_models s' = (sqlalchemy_models s)
             \<lparr>container := container (sqlalchemy_models s) @ [(t, m)]\<rparr>"
      and "classes_made s' = Suc (classes_made s)"
  shows "extends s s'"
  using assms
  by (auto simp: extends_def one_build_per_key_def map_of_eq_None_iff map_add_def split: option.splits)

lemma extends_flat_container:
  assumes "map_of (flat_container (sqlalchemy_models s)) t = None"
      and "sqlalchemy_models s' = (sqlalchemy_models s)
             \<lparr>flat_container := flat_container (sqlalchemy_models s) @ [(t, m)]\<rparr>"
      and "classes_made s' = Suc (classes_made s)"
  shows "extends s s'"
  using assms
  by (auto simp: extends_def one_build_per_key_def map_of_eq_None_iff map_add_def split: option.splits)

lemma make_model_from_schema_extends:
  "extends s (snd (make_model_from_schema pkg s t S src tmd crud))"
proof (cases "map_of (container (sqlalchemy_models s)) t")
  case None
  obtain r s' where c: "make_model_from_schema pkg s t S src tmd crud = (r, s')"
    by (cases "make_model_from_schema pkg s t S src tmd crud")
  from make_model_from_schema_miss [OF None c] have "extends s s'"
    by (auto intro: extends_same extends_container [OF None])
  with c show ?thesis by simp
next
  case (Some m)
  then show ?thesis by (simp add: make_model_from_schema_hit extends_refl)
qed

lemma make_flat_model_from_schema_extends:
  "extends s (snd (make_flat_model_from_schema pkg s t S src tmd))"
proof (cases "map_of (flat_container (sqlalchemy_models s)) t")
  case None
  obtain r s' where c: "make_flat_model_from_schema pkg s t S src tmd = (r, s')"
    by (cases "make_flat_model_from_schema pkg s t S src tmd")
  from make_flat_model_from_schema_miss [OF None c] have "extends s s'"
    by (auto intro: extends_same extends_flat_container [OF None])
  with c show ?thesis by simp
next
  case (Some m)
  then show ?thesis by (simp add: make_flat_model_from_schema_hit extends_refl)
qed

lemma make_sqlalchemy_model_extends:
  "extends s (snd (make_sqlalchemy_model pkg s t ty src tmd crud))"
  by (cases "get_schema pkg ty")
     (simp_all add: make_sqlalchemy_model_def make_model_from_schema_extends extends_refl)

lemma make_flat_model_extends:
  "extends s (snd (make_flat_model pkg s t ty src tmd))"
  by (cases "get_schema pkg ty")
     (simp_all add: make_flat_model_def make_flat_model_from_schema_extends extends_refl)

lemma dataset_loop_extends:
  "extends s (snd (dataset_loop pkg s dd sts src md crud))"
proof (induction sts arbitrary: s dd)
  case Nil
  show ?case by (simp add: extends_refl)
next
  case (Cons p sts)
  obtain sn tn where p: "p = (sn, tn)" by (cases p)
  show ?case
  proof (cases md)
    case None
    with p show ?thesis by (simp add: extends_refl)
  next
    case (Some mdd)
    define tmd where "tmd = (case map_of mdd tn of None \<Rightarrow> TM_None | Some t \<Rightarrow> t)"
    obtain r s1 where c: "make_sqlalchemy_model pkg s tn sn src tmd crud = (r, s1)"
      by (cases "make_sqlalchemy_model pkg s tn sn src tmd crud")
    have e1: "extends s s1"
      using make_sqlalchemy_model_extends [of s pkg tn sn src tmd crud] c by simp
    show ?thesis
    proof (cases r)
      case (Inl e)
      with p Some c e1 show ?thesis by (simp add: tmd_def)
    next
      case (Inr m)
      with p Some c have "dataset_loop pkg s dd (p # sts) src md crud =
          dataset_loop pkg s1 (AList.update tn m dd) sts src md crud"
        by (simp add: tmd_def)
      with Cons.IH [of s1 "AList.update tn m dd"] e1 show ?thesis
        by (auto intro: extends_trans)
    qed
  qed
qed

lemma make_dataset_models_extends:
  "extends s (snd (make_dataset_models pkg s av sts src inc md crud))"
proof (cases "validate_types pkg sts")
  case (Inl e)
  then show ?thesis by (simp add: make_dataset_models_def extends_refl)
next
  case (Inr u)
  obtain r s1 where l: "dataset_loop pkg s [] sts src md crud = (r, s1)"
    by (cases "dataset_loop pkg s [] sts src md crud")
  with dataset_loop_extends [of s pkg "[]" sts src md crud] have e1: "extends s s1" by simp
  show ?thesis
  proof (cases r)
    case (Inl e)
    with Inr l e1 show ?thesis by (simp add: make_dataset_models_def)
  next
    case r: (Inr dd)
    show ?thesis
    proof (cases inc)
      case False
      with Inr l r e1 show ?thesis by (simp add: make_dataset_models_def)
    next
      case True
      obtain r2 s2 where c: "make_model_from_schema pkg s1 (av @ ''__contact'') (Contact pkg) None TM_None True = (r2, s2)"
        by (cases "make_model_from_schema pkg s1 (av @ ''__contact'') (Contact pkg) None TM_None True")
      with make_model_from_schema_extends [of s1 pkg "av @ ''__contact''" "Contact pkg" None TM_None True]
      have "extends s1 s2" by simp
      with e1 have "extends s s2" by (rule extends_trans)
      with Inr l r True c show ?thesis
        by (cases r2) (simp_all add: make_dataset_models_def)
    qed
  qed
qed

lemma state_after_extends: "extends s (state_after pkg s c)"
  by (cases c)
     (simp_all add: make_model_from_schema_extends make_flat_model_from_schema_extends
        make_dataset_models_extends make_sqlalchemy_model_extends make_flat_model_extends)

lemma run_extends: "extends s (run pkg s calls)"
  unfolding run_def
proof (induction calls arbitrary: s)
  case Nil
  show ?case by (simp add: extends_refl)
next
  case (Cons c calls)
  from state_after_extends [of s pkg c] Cons [of "state_after pkg s c"] show ?case
    by (auto intro: extends_trans)
qed

lemma dataset_loop_cached:
  assumes "\<forall>(sn, tn) \<in> set sts.
             (\<exists>S. get_schema pkg sn = Inr S) \<and> map_of (container (sqlalchemy_models s)) tn \<noteq> None"
  shows "\<exists>dd'. dataset_loop pkg s dd sts src (Some mdd) crud = (Inr dd', s) \<and>
           (\<forall>tn. map_of dd' tn =
              (if tn \<in> snd ` set sts then map_of (container (sqlalchemy_models s)) tn
               else map_of dd tn))"
  using assms
proof (induction sts arbitrary: dd)
  case Nil
  show ?case by simp
next
  case (Cons p sts)
  obtain sn tn where p: "p = (sn, tn)" by (cases p)
  from Cons.prems p obtain S m where S: "get_schema pkg sn = Inr S"
    and m: "map_of (container (sqlalchemy_models s)) tn = Some m" by auto
  from Cons.prems have rest: "\<forall>(sn, tn) \<in> set sts.
             (\<exists>S. get_schema pkg sn = Inr S) \<and> map_of (container (sqlalchemy_models s)) tn \<noteq> None"
    by simp
  from Cons.IH [OF rest, of "AList.update tn m dd"] obtain dd' where
    l: "dataset_loop pkg s (AList.update tn m dd) sts src (Some mdd) crud = (Inr dd', s)" and
    v: "\<forall>k. map_of dd' k =
              (if k \<in> snd ` set sts then map_of (container (sqlalchemy_models s)) k
               else map_of (AList.update tn m dd) k)" by blast
  from p S m l have "dataset_loop pkg s dd (p # sts) src (Some mdd) crud = (Inr dd', s)"
    by (simp add: make_sqlalchemy_model_def make_model_from_schema_hit)
  moreover from v m p have "\<forall>k. map_of dd' k =
              (if k \<in> snd ` set (p # sts) then map_of (container (sqlalchemy_models s)) k
               else map_of dd k)"
    by (auto simp: update_conv')
  ultimately show ?case by blast
qed

lemma one_build_per_key_initial: "one_build_per_key initial_state"
  by (simp add: one_build_per_key_def initial_state_def ModelStore_init_def)

lemma make_model_from_schema_cached:
  assumes "make_model_from_schema pkg s t S src tmd crud = (Inr m, s')"
  shows "map_of (container (sqlalchemy_models s')) t = Some m"
proof (cases "map_of (container (sqlalchemy_models s)) t")
  case None
  from make_model_from_schema_miss [OF None assms] None show ?thesis
    by (auto simp: map_add_def)
next
  case (Some m0)
  with assms show ?thesis by (simp add: make_model_from_schema_hit)
qed

lemma make_flat_model_from_schema_cached:
  assumes "make_flat_model_from_schema pkg s t S src tmd = (Inr m, s')"
  shows "map_of (flat_container (sqlalchemy_models s')) t = Some m"
proof (cases "map_of (flat_container (sqlalchemy_models s)) t")
  case None
  from make_flat_model_from_schema_miss [OF None assms] None show ?thesis
    by (auto simp: map_add_def)
next
  case (Some m0)
  with assms show ?thesis by (simp add: make_flat_model_from_schema_hit)
qed

subsection \<open>The mapping of the examples\<close>

text \<open>
  Three calls that raise when the class is made, in the package of the examples: the
  table of the class is defined already in \<^verbatim>\<open>Base.metadata\<close> (the registry being empty); a
  string field named \<^verbatim>\<open>id\<close> has replaced the primary key, and the table stays in
  \<^verbatim>\<open>Base.metadata\<close>; a field is named \<^verbatim>\<open>metadata\<close>. The registry is as before each time.
\<close>

lemma table_already_defined_example:
  "make_model_from_schema example_package
     (state_with [] [] [''T__seg1''] []) ''T'' scenario_schema (Some ''seg1'') base_metadata True =
   (Inl (InvalidRequestError (Table_already_defined ''T__seg1'')),
    state_with [] [] [''T__seg1''] [])"
  by code_simp

lemma no_primary_key_example:
  "make_model_from_schema example_package initial_state ''T''
     (example_schema [(''id'', plain_field mm_String)]) None TM_None False =
   (Inl ArgumentError, state_with [] [] [''T''] [])"
  by code_simp

lemma metadata_reserved_example:
  "make_model_from_schema example_package initial_state ''T''
     (example_schema [(''metadata'', plain_field mm_String)]) None TM_None False =
   (Inl (InvalidRequestError Attribute_name_metadata_reserved), initial_state)"
  by code_simp

subsection \<open>The table dict\<close>

lemma create_table_dict_unfold:
  "create_table_dict pkg t S src tmd crud =
     add_fields pkg tmd (table_header t src @ (if crud then crud_columns else [])) (declared_fields S)"
  by (simp add: create_table_dict_def table_header_def crud_columns_def dict_update_def Column_def
        Let_def split: option.splits)

lemma table_header_lookup:
  "map_of (table_header t src @ (if crud then crud_columns else [])) ''reference_table_name'' = None"
  "distinct (map fst (table_header t src @ (if crud then crud_columns else [])))"
  by (auto simp: table_header_def crud_columns_def split: option.splits)


lemma add_fields_column:
  "add_fields pkg tmd m fs = Inr m' \<Longrightarrow> distinct (map fst fs) \<Longrightarrow> (k, f) \<in> set fs \<Longrightarrow>
   \<not> drop_column f \<Longrightarrow> k \<noteq> ''reference_table_name'' \<Longrightarrow> \<exists>c. map_of m' k = Some (Col c)"
proof (induction fs arbitrary: m)
  case Nil
  then show ?case by simp
next
  case (Cons p fs)
  obtain k0 f0 where p: "p = (k0, f0)" by (cases p)
  show ?case
  proof (cases "(k, f) = (k0, f0)")
    case True
    with Cons.prems p obtain m1 m2 where
      v: "validate_metadata pkg m f tmd = Inr m1" and a: "add_column m1 k f = Inr m2" and
      r: "add_fields pkg tmd m2 fs = Inr m'"
      by (auto split: sum.splits)
    from Cons.prems(2) p True have "\<forall>(k', f') \<in> set fs. \<not> drop_column f' \<longrightarrow> k' \<noteq> k"
      by (auto simp: image_iff)
    from add_fields_other [OF r Cons.prems(5) this] add_column_key [OF a] show ?thesis by simp
  next
    case False
    with Cons.prems(3) p have mem: "(k, f) \<in> set fs" by auto
    from Cons.prems(2) have d: "distinct (map fst fs)" by simp
    show ?thesis
    proof (cases "drop_column f0")
      case True
      with Cons.prems(1) p have "add_fields pkg tmd m fs = Inr m'" by simp
      from Cons.IH [OF this d mem Cons.prems(4,5)] show ?thesis .
    next
      case False
      with Cons.prems(1) p obtain m2 where "add_fields pkg tmd m2 fs = Inr m'"
        by (auto split: sum.splits)
      from Cons.IH [OF this d mem Cons.prems(4,5)] show ?thesis .
    qed
  qed
qed

lemma distinct_count_one:
  "distinct (map fst d) \<Longrightarrow> map_of d k = Some v \<Longrightarrow> length (filter (\<lambda>(k', e). k' = k) d) = 1"
proof (induction d)
  case Nil
  then show ?case by simp
next
  case (Cons p d)
  obtain k0 v0 where p: "p = (k0, v0)" by (cases p)
  show ?case
  proof (cases "k0 = k")
    case True
    with Cons.prems p have "\<forall>x \<in> set d. fst x \<noteq> k" by auto
    then have "filter (\<lambda>(k', e). k' = k) d = []"
      by (auto simp: filter_empty_conv)
    with True p show ?thesis by simp
  next
    case False
    with Cons p show ?thesis by simp
  qed
qed

lemma filter_keys_update:
  "k \<notin> K \<Longrightarrow> filter (\<lambda>(k', e). k' \<notin> K) (AList.update k v m) =
                 AList.update k v (filter (\<lambda>(k', e). k' \<notin> K) m)"
  by (induction m) auto

lemma filter_keys_delete:
  "filter (\<lambda>(k', e). k' \<notin> K) (AList.delete k m) = AList.delete k (filter (\<lambda>(k', e). k' \<notin> K) m)"
  by (induction m) auto

lemma filter_keys_lookup:
  "k \<notin> K \<Longrightarrow> map_of (filter (\<lambda>(k', e). k' \<notin> K) m) k = map_of m k"
  by (induction m) auto

lemma validate_metadata_filter:
  "''reference_table_name'' \<notin> K \<Longrightarrow>
   validate_metadata pkg (filter (\<lambda>(k', e). k' \<notin> K) m) f tmd =
   map_sum id (filter (\<lambda>(k', e). k' \<notin> K)) (validate_metadata pkg m f tmd)"
  by (simp add: validate_metadata_def Let_def filter_keys_update
           split: table_metadata.splits option.splits)

lemma add_column_filter:
  "''reference_table_name'' \<notin> K \<Longrightarrow> k \<notin> K \<Longrightarrow>
   add_column (filter (\<lambda>(k', e). k' \<notin> K) m) k f =
   map_sum id (filter (\<lambda>(k', e). k' \<notin> K)) (add_column m k f)"
  by (simp add: add_column_def Let_def filter_keys_update filter_keys_delete filter_keys_lookup
           split: option.splits)

lemma add_fields_filter:
  "''reference_table_name'' \<notin> K \<Longrightarrow>
   \<forall>(k, f) \<in> set fs. \<not> drop_column f \<longrightarrow> k \<notin> K \<Longrightarrow>
   add_fields pkg tmd (filter (\<lambda>(k', e). k' \<notin> K) m) fs =
   map_sum id (filter (\<lambda>(k', e). k' \<notin> K)) (add_fields pkg tmd m fs)"
proof (induction fs arbitrary: m)
  case Nil
  show ?case by simp
next
  case (Cons p fs)
  obtain k f where p: "p = (k, f)" by (cases p)
  from Cons.prems(2) have rest: "\<forall>(k, f) \<in> set fs. \<not> drop_column f \<longrightarrow> k \<notin> K" by simp
  note IH = Cons.IH [OF Cons.prems(1) rest]
  show ?case
  proof (cases "drop_column f")
    case True
    with p IH show ?thesis by simp
  next
    case False
    with Cons.prems(2) p have k: "k \<notin> K" by simp
    show ?thesis
    proof (cases "validate_metadata pkg m f tmd")
      case (Inl e)
      with p False validate_metadata_filter [OF Cons.prems(1), of pkg m f tmd] show ?thesis by simp
    next
      case v: (Inr m1)
      show ?thesis
      proof (cases "add_column m1 k f")
        case (Inl e)
        with p False v validate_metadata_filter [OF Cons.prems(1), of pkg m f tmd]
          add_column_filter [OF Cons.prems(1) k, of m1 f]
        show ?thesis by simp
      next
        case (Inr m2)
        with p False v validate_metadata_filter [OF Cons.prems(1), of pkg m f tmd]
          add_column_filter [OF Cons.prems(1) k, of m1 f] IH [of m2]
        show ?thesis by simp
      qed
    qed
  qed
qed

lemma distinct_key_value:
  "distinct (map fst xs) \<Longrightarrow> (k, v) \<in> set xs \<Longrightarrow> (k, v') \<in> set xs \<Longrightarrow> v = v'"
  by (induction xs) (auto simp: image_iff)

lemma add_fields_supported:
  "add_fields pkg tmd m fs = Inr m' \<Longrightarrow> (k, f) \<in> set fs \<Longrightarrow> \<not> drop_column f \<Longrightarrow>
   field_column_map (field_type f) \<noteq> None"
proof (induction fs arbitrary: m)
  case Nil
  then show ?case by simp
next
  case (Cons p fs)
  obtain k0 f0 where p: "p = (k0, f0)" by (cases p)
  show ?case
  proof (cases "(k, f) = (k0, f0)")
    case True
    with Cons.prems p obtain m1 m2 where "add_column m1 k f = Inr m2"
      by (auto split: sum.splits)
    then show ?thesis by (auto simp: add_column_def Let_def split: option.splits)
  next
    case False
    with Cons.prems(2) p have mem: "(k, f) \<in> set fs" by auto
    from Cons.prems(1) p obtain m2 where "add_fields pkg tmd m2 fs = Inr m'"
      by (cases "drop_column f0") (auto split: sum.splits)
    from Cons.IH [OF this mem Cons.prems(3)] show ?thesis .
  qed
qed

subsection \<open>The pending reference key\<close>

lemma validate_metadata_pending:
  "validate_metadata pkg m f (TM_dict dd) = Inr m1 \<Longrightarrow> map_of dd ''reference_table'' = Some r \<Longrightarrow>
   map_of m ''reference_table_name'' = Some (Raw r) \<Longrightarrow>
   map_of m1 ''reference_table_name'' = Some (Raw r)"
  by (auto simp: validate_metadata_def Let_def update_conv' split: if_splits option.splits)

lemma add_fields_pending_kept:
  "add_fields pkg (TM_dict dd) m fs = Inr m' \<Longrightarrow> map_of dd ''reference_table'' = Some r \<Longrightarrow>
   map_of m ''reference_table_name'' = Some (Raw r) \<Longrightarrow>
   \<forall>(k, f) \<in> set fs. \<not> drop_column f \<longrightarrow>
      field_type f \<noteq> ReferenceTableField \<and> k \<noteq> ''reference_table_name'' \<Longrightarrow>
   map_of m' ''reference_table_name'' = Some (Raw r)"
proof (induction fs arbitrary: m)
  case Nil
  then show ?case by simp
next
  case (Cons p fs)
  obtain k f where p: "p = (k, f)" by (cases p)
  from Cons.prems(4) have rest: "\<forall>(k, f) \<in> set fs. \<not> drop_column f \<longrightarrow>
      field_type f \<noteq> ReferenceTableField \<and> k \<noteq> ''reference_table_name''" by simp
  show ?case
  proof (cases "drop_column f")
    case True
    with Cons.prems(1) p have "add_fields pkg (TM_dict dd) m fs = Inr m'" by simp
    from Cons.IH [OF this Cons.prems(2,3) rest] show ?thesis .
  next
    case False
    with Cons.prems(1) p obtain m1 m2 where
      v: "validate_metadata pkg m f (TM_dict dd) = Inr m1" and a: "add_column m1 k f = Inr m2" and
      r: "add_fields pkg (TM_dict dd) m2 fs = Inr m'"
      by (auto split: sum.splits)
    from False Cons.prems(4) p have t: "field_type f \<noteq> ReferenceTableField"
      and n: "k \<noteq> ''reference_table_name''" by auto
    from validate_metadata_pending [OF v Cons.prems(2,3)] add_column_pending [OF a n t]
    have "map_of m2 ''reference_table_name'' = Some (Raw r)" by simp
    from Cons.IH [OF r Cons.prems(2) this rest] show ?thesis .
  qed
qed

lemma add_fields_nothing_pending:
  "map_of m ''reference_table_name'' = None \<Longrightarrow>
   \<forall>(k, f) \<in> set fs. \<not> drop_column f \<longrightarrow>
      \<not> is_reference pkg f \<and> k \<noteq> ''reference_table_name'' \<and>
      field_column_map (field_type f) \<noteq> None \<Longrightarrow>
   add_fields pkg tmd m fs = Inl (KeyError ''reference_table_name'') \<or>
   (\<exists>m'. add_fields pkg tmd m fs = Inr m' \<and> map_of m' ''reference_table_name'' = None)"
proof (induction fs arbitrary: m)
  case Nil
  then show ?case by simp
next
  case (Cons p fs)
  obtain k f where p: "p = (k, f)" by (cases p)
  from Cons.prems(2) have rest: "\<forall>(k, f) \<in> set fs. \<not> drop_column f \<longrightarrow>
      \<not> is_reference pkg f \<and> k \<noteq> ''reference_table_name'' \<and>
      field_column_map (field_type f) \<noteq> None" by simp
  show ?case
  proof (cases "drop_column f")
    case True
    with p Cons.IH [OF Cons.prems(1) rest] show ?thesis by simp
  next
    case False
    with Cons.prems(2) p have nr: "\<not> is_reference pkg f" and n: "k \<noteq> ''reference_table_name''"
      and sup: "field_column_map (field_type f) \<noteq> None" by auto
    show ?thesis
    proof (cases "field_type f = ReferenceTableField")
      case True
      with Cons.prems(1) have "add_column m k f = Inl (KeyError ''reference_table_name'')"
        by (simp add: add_column_def Let_def)
      with p False nr show ?thesis by (simp add: validate_metadata_noref)
    next
      case nt: False
      from sup obtain ty where ty: "field_column_map (field_type f) = Some ty" by auto
      with nt have "\<exists>m2. add_column m k f = Inr m2"
        by (simp add: add_column_def Let_def)
      then obtain m2 where a: "add_column m k f = Inr m2" ..
      from add_column_pending [OF a n nt] Cons.prems(1)
      have "map_of m2 ''reference_table_name'' = None" by simp
      from Cons.IH [OF this rest] p False nr a show ?thesis
        by (simp add: validate_metadata_noref)
    qed
  qed
qed

subsection \<open>Building on a miss\<close>

lemma validate_metadata_missing:
  "is_reference pkg f \<Longrightarrow> \<forall>dd. tmd = TM_dict dd \<longrightarrow> map_of dd ''reference_table'' = None \<Longrightarrow>
   validate_metadata pkg m f tmd = Inl (missing_reference_error tmd)"
  by (simp add: validate_metadata_def missing_reference_error_def Let_def split: table_metadata.splits)

lemma add_fields_missing_reference:
  assumes "\<forall>dd. tmd = TM_dict dd \<longrightarrow> map_of dd ''reference_table'' = None"
      and "\<not> drop_column f" and "is_reference pkg f"
  shows "\<forall>(k', f') \<in> set pre. \<not> drop_column f' \<longrightarrow>
           field_column_map (field_type f') \<noteq> None \<and>
           (field_type f' = ReferenceTableField \<longrightarrow> is_reference pkg f') \<Longrightarrow>
         add_fields pkg tmd m (pre @ (k, f) # post) = Inl (missing_reference_error tmd)"
proof (induction pre arbitrary: m)
  case Nil
  from assms show ?case by (simp add: validate_metadata_missing)
next
  case (Cons p pre)
  obtain k0 f0 where p: "p = (k0, f0)" by (cases p)
  from Cons.prems have rest: "\<forall>(k', f') \<in> set pre. \<not> drop_column f' \<longrightarrow>
           field_column_map (field_type f') \<noteq> None \<and>
           (field_type f' = ReferenceTableField \<longrightarrow> is_reference pkg f')" by simp
  note IH = Cons.IH [OF rest]
  show ?case
  proof (cases "drop_column f0")
    case True
    with p IH show ?thesis by simp
  next
    case False
    show ?thesis
    proof (cases "is_reference pkg f0")
      case True
      with p False assms(1) show ?thesis by (simp add: validate_metadata_missing)
    next
      case nr: False
      with False Cons.prems p have nt: "field_type f0 \<noteq> ReferenceTableField"
        and sup: "field_column_map (field_type f0) \<noteq> None" by auto
      then have "\<exists>m2. add_column m k0 f0 = Inr m2"
        by (auto simp: add_column_def Let_def)
      then obtain m2 where "add_column m k0 f0 = Inr m2" ..
      with p False nr IH [of m2] show ?thesis by (simp add: validate_metadata_noref)
    qed
  qed
qed

text \<open>An exception of \<^verbatim>\<open>create_table_dict\<close> on a miss: it is the call's, and nothing changes.\<close>

lemma make_model_from_schema_build_error:
  assumes "map_of (container (sqlalchemy_models s)) t = None"
      and "split_annotation_schema pkg S = Inr (A, G)"
      and "create_table_dict pkg t (if truthy_source src then G else A)
             (if truthy_source src then src else None) tmd crud = Inl e"
  shows "make_model_from_schema pkg s t S src tmd crud = (Inl e, s)"
proof -
  from assms(3) have "create_sqlalchemy_model pkg s t (if truthy_source src then G else A)
             (if truthy_source src then src else None) tmd crud = (Inl e, s)"
    by (simp only: create_sqlalchemy_model_def sum.case)
  then show ?thesis
    by (simp only: make_model_from_schema_on_miss [OF assms(1,2)] sum.case prod.case)
qed

lemma make_model_from_schema_error_registry:
  assumes "make_model_from_schema pkg s t S src tmd crud = (Inl e, s')"
  shows "sqlalchemy_models s' = sqlalchemy_models s \<and> classes_made s' = classes_made s"
proof (cases "map_of (container (sqlalchemy_models s)) t")
  case None
  from make_model_from_schema_miss [OF None assms] show ?thesis by auto
next
  case (Some m)
  with assms show ?thesis by (simp add: make_model_from_schema_hit)
qed

subsection \<open>The two halves of a schema\<close>









section \<open>The claims\<close>

subsection \<open>C1: the segmentation table and the base table\<close>





subsection \<open>C2: the registry is idempotent per table name and kind\<close>

text \<open>
  Claim C2, as stated, fails in its last part: a build that raises stores nothing, so the
  next call for the same table name and kind runs the builder again. Here the builder
  runs for the table \<^verbatim>\<open>T\<close> and raises \<open>InvalidTableMetaDataException\<close>; in the state that this
  call leaves, the guard of the builder holds again, and the same call raises again; a
  third call, with table metadata, builds the model. The builder ran three times for one
  table name and kind.
\<close>

theorem builder_runs_again_counterexample:
  "runs_builder initial_state ''T'' False \<and>
   make_model_from_schema example_package initial_state ''T'' scenario_schema (Some ''seg1'')
     TM_None True = (Inl (InvalidTableMetaDataException No_metadata_provided), initial_state) \<and>
   runs_builder
     (run example_package initial_state
        [Make_model_from_schema ''T'' scenario_schema (Some ''seg1'') TM_None True])
     ''T'' False \<and>
   make_model_from_schema example_package
     (run example_package initial_state
        [Make_model_from_schema ''T'' scenario_schema (Some ''seg1'') TM_None True])
     ''T'' scenario_schema (Some ''seg1'') TM_None True =
     (Inl (InvalidTableMetaDataException No_metadata_provided), initial_state) \<and>
   runs_builder
     (run example_package initial_state
        [Make_model_from_schema ''T'' scenario_schema (Some ''seg1'') TM_None True,
         Make_model_from_schema ''T'' scenario_schema (Some ''seg1'') TM_None True])
     ''T'' False \<and>
   run example_package initial_state
     [Make_model_from_schema ''T'' scenario_schema (Some ''seg1'') TM_None True,
      Make_model_from_schema ''T'' scenario_schema (Some ''seg1'') TM_None True,
      Make_model_from_schema ''T'' scenario_schema (Some ''seg1'') base_metadata True] = state_one"
  by code_simp

text \<open>
  Claim C2, amended. If the full container holds an entry for the table name,
  \<^verbatim>\<open>make_model_from_schema\<close> returns that entry and leaves the state as it is: the builder
  is not run, no class is made, nothing is stored; so does \<^verbatim>\<open>make_sqlalchemy_model\<close> when
  \<^verbatim>\<open>get_schema\<close> gives a schema for its schema type. The same holds for
  \<^verbatim>\<open>make_flat_model_from_schema\<close>, \<^verbatim>\<open>make_flat_model\<close> and the flat container. A call that
  returns a model, made again with the same arguments in the state it left, returns the
  same object (models are compared with their \<open>object_id\<close>) and changes nothing; and
  after it, whatever calls follow, the builder is never run again for that table name and
  kind. A call that runs the builder either raises, and then the registry is as before
  and no class is made, or makes exactly one class and stores it under the table name.
  \<^verbatim>\<open>make_dataset_models\<close>, without contacts, for pairs whose tables are all cached, returns
  the cached models and leaves the state as it is. And whatever calls a client makes from
  the initial state, the number of classes made is the number of keys of the two
  containers: one successful build for each table name and kind that is registered. A
  build that raises is not counted, and may be run again.
\<close>

theorem model_registry_idempotent:
  "(map_of (container (sqlalchemy_models s)) t = Some m \<longrightarrow>
      make_model_from_schema pkg s t S src tmd crud = (Inr m, s) \<and>
      (get_schema pkg ty = Inr Sty \<longrightarrow>
         make_sqlalchemy_model pkg s t ty src tmd crud = (Inr m, s))) \<and>
   (map_of (flat_container (sqlalchemy_models s)) t = Some fm \<longrightarrow>
      make_flat_model_from_schema pkg s t S src tmd = (Inr fm, s) \<and>
      (get_schema pkg ty = Inr Sty \<longrightarrow>
         make_flat_model pkg s t ty src tmd = (Inr fm, s))) \<and>
   (make_model_from_schema pkg sA tA SA srcA tmdA crudA = (Inr mA, sA') \<longrightarrow>
      make_model_from_schema pkg sA' tA SA srcA tmdA crudA = (Inr mA, sA') \<and>
      \<not> runs_builder (run pkg sA' callsA) tA False) \<and>
   (make_flat_model_from_schema pkg sB tB SB srcB tmdB = (Inr mB, sB') \<longrightarrow>
      make_flat_model_from_schema pkg sB' tB SB srcB tmdB = (Inr mB, sB') \<and>
      \<not> runs_builder (run pkg sB' callsB) tB True) \<and>
   (runs_builder sC tC False \<longrightarrow>
      make_model_from_schema pkg sC tC SC srcC tmdC crudC = (rC, sC') \<longrightarrow>
      (\<exists>e. rC = Inl e \<and> sqlalchemy_models sC' = sqlalchemy_models sC \<and>
           classes_made sC' = classes_made sC) \<or>
      (\<exists>mC. rC = Inr mC \<and>
            sqlalchemy_models sC' = (sqlalchemy_models sC)
              \<lparr>container := container (sqlalchemy_models sC) @ [(tC, mC)]\<rparr> \<and>
            classes_made sC' = Suc (classes_made sC))) \<and>
   (runs_builder sD tD True \<longrightarrow>
      make_flat_model_from_schema pkg sD tD SD srcD tmdD = (rD, sD') \<longrightarrow>
      (\<exists>e. rD = Inl e \<and> sqlalchemy_models sD' = sqlalchemy_models sD \<and>
           classes_made sD' = classes_made sD) \<or>
      (\<exists>mD. rD = Inr mD \<and>
            sqlalchemy_models sD' = (sqlalchemy_models sD)
              \<lparr>flat_container := flat_container (sqlalchemy_models sD) @ [(tD, mD)]\<rparr> \<and>
            classes_made sD' = Suc (classes_made sD))) \<and>
   ((\<forall>(sn, tn) \<in> set sts.
        sn \<in> set (get_types pkg) \<and> (\<exists>Ssn. get_schema pkg sn = Inr Ssn) \<and>
        map_of (container (sqlalchemy_models sE)) tn \<noteq> None) \<longrightarrow>
      (\<exists>dd. make_dataset_models pkg sE av sts srcE False (Some mdd) crudE = (Inr dd, sE) \<and>
            (\<forall>(sn, tn) \<in> set sts. map_of dd tn = map_of (container (sqlalchemy_models sE)) tn))) \<and>
   one_build_per_key (run pkg initial_state calls)"
proof (intro conjI impI)
  assume "map_of (container (sqlalchemy_models s)) t = Some m"
  then show "make_model_from_schema pkg s t S src tmd crud = (Inr m, s)"
    by (rule make_model_from_schema_hit)
next
  assume "map_of (container (sqlalchemy_models s)) t = Some m" "get_schema pkg ty = Inr Sty"
  then show "make_sqlalchemy_model pkg s t ty src tmd crud = (Inr m, s)"
    by (simp add: make_sqlalchemy_model_def make_model_from_schema_hit)
next
  assume "map_of (flat_container (sqlalchemy_models s)) t = Some fm"
  then show "make_flat_model_from_schema pkg s t S src tmd = (Inr fm, s)"
    by (rule make_flat_model_from_schema_hit)
next
  assume "map_of (flat_container (sqlalchemy_models s)) t = Some fm" "get_schema pkg ty = Inr Sty"
  then show "make_flat_model pkg s t ty src tmd = (Inr fm, s)"
    by (simp add: make_flat_model_def make_flat_model_from_schema_hit)
next
  assume "make_model_from_schema pkg sA tA SA srcA tmdA crudA = (Inr mA, sA')"
  then have "map_of (container (sqlalchemy_models sA')) tA = Some mA"
    by (rule make_model_from_schema_cached)
  then show "make_model_from_schema pkg sA' tA SA srcA tmdA crudA = (Inr mA, sA')"
    by (rule make_model_from_schema_hit)
next
  assume "make_model_from_schema pkg sA tA SA srcA tmdA crudA = (Inr mA, sA')"
  then have "map_of (container (sqlalchemy_models sA')) tA = Some mA"
    by (rule make_model_from_schema_cached)
  with run_extends [of sA' pkg callsA]
  have "map_of (container (sqlalchemy_models (run pkg sA' callsA))) tA = Some mA"
    by (simp add: extends_def)
  then show "\<not> runs_builder (run pkg sA' callsA) tA False"
    by (simp add: runs_builder_def contains_model_iff)
next
  assume "make_flat_model_from_schema pkg sB tB SB srcB tmdB = (Inr mB, sB')"
  then have "map_of (flat_container (sqlalchemy_models sB')) tB = Some mB"
    by (rule make_flat_model_from_schema_cached)
  then show "make_flat_model_from_schema pkg sB' tB SB srcB tmdB = (Inr mB, sB')"
    by (rule make_flat_model_from_schema_hit)
next
  assume "make_flat_model_from_schema pkg sB tB SB srcB tmdB = (Inr mB, sB')"
  then have "map_of (flat_container (sqlalchemy_models sB')) tB = Some mB"
    by (rule make_flat_model_from_schema_cached)
  with run_extends [of sB' pkg callsB]
  have "map_of (flat_container (sqlalchemy_models (run pkg sB' callsB))) tB = Some mB"
    by (simp add: extends_def)
  then show "\<not> runs_builder (run pkg sB' callsB) tB True"
    by (simp add: runs_builder_def contains_model_iff)
next
  assume "runs_builder sC tC False" "make_model_from_schema pkg sC tC SC srcC tmdC crudC = (rC, sC')"
  then have "map_of (container (sqlalchemy_models sC)) tC = None"
    and c: "make_model_from_schema pkg sC tC SC srcC tmdC crudC = (rC, sC')"
    by (simp_all add: runs_builder_def contains_model_iff)
  from make_model_from_schema_miss [OF this]
  show "(\<exists>e. rC = Inl e \<and> sqlalchemy_models sC' = sqlalchemy_models sC \<and>
           classes_made sC' = classes_made sC) \<or>
      (\<exists>mC. rC = Inr mC \<and>
            sqlalchemy_models sC' = (sqlalchemy_models sC)
              \<lparr>container := container (sqlalchemy_models sC) @ [(tC, mC)]\<rparr> \<and>
            classes_made sC' = Suc (classes_made sC))"
    by blast
next
  assume "runs_builder sD tD True" "make_flat_model_from_schema pkg sD tD SD srcD tmdD = (rD, sD')"
  then have "map_of (flat_container (sqlalchemy_models sD)) tD = None"
    and c: "make_flat_model_from_schema pkg sD tD SD srcD tmdD = (rD, sD')"
    by (simp_all add: runs_builder_def contains_model_iff)
  from make_flat_model_from_schema_miss [OF this]
  show "(\<exists>e. rD = Inl e \<and> sqlalchemy_models sD' = sqlalchemy_models sD \<and>
           classes_made sD' = classes_made sD) \<or>
      (\<exists>mD. rD = Inr mD \<and>
            sqlalchemy_models sD' = (sqlalchemy_models sD)
              \<lparr>flat_container := flat_container (sqlalchemy_models sD) @ [(tD, mD)]\<rparr> \<and>
            classes_made sD' = Suc (classes_made sD))"
    by blast
next
  assume a: "\<forall>(sn, tn) \<in> set sts.
        sn \<in> set (get_types pkg) \<and> (\<exists>Ssn. get_schema pkg sn = Inr Ssn) \<and>
        map_of (container (sqlalchemy_models sE)) tn \<noteq> None"
  then have v: "validate_types pkg sts = Inr ()"
    by (auto simp: validate_types_def Let_def list_all_iff)
  from a have "\<forall>(sn, tn) \<in> set sts.
             (\<exists>S. get_schema pkg sn = Inr S) \<and> map_of (container (sqlalchemy_models sE)) tn \<noteq> None"
    by auto
  from dataset_loop_cached [OF this, of "[]" srcE mdd crudE] obtain dd where
    l: "dataset_loop pkg sE [] sts srcE (Some mdd) crudE = (Inr dd, sE)" and
    d: "\<forall>tn. map_of dd tn =
              (if tn \<in> snd ` set sts then map_of (container (sqlalchemy_models sE)) tn
               else map_of [] tn)" by blast
  from v l have "make_dataset_models pkg sE av sts srcE False (Some mdd) crudE = (Inr dd, sE)"
    by (simp add: make_dataset_models_def)
  moreover from d have "\<forall>(sn, tn) \<in> set sts. map_of dd tn = map_of (container (sqlalchemy_models sE)) tn"
    by (auto simp: image_iff)
  ultimately show "\<exists>dd. make_dataset_models pkg sE av sts srcE False (Some mdd) crudE = (Inr dd, sE) \<and>
            (\<forall>(sn, tn) \<in> set sts. map_of dd tn = map_of (container (sqlalchemy_models sE)) tn)"
    by blast
next
  from run_extends [of initial_state pkg calls] one_build_per_key_initial
  show "one_build_per_key (run pkg initial_state calls)"
    by (simp add: extends_def)
qed

theorem model_registry_idempotent_witness:
  "(map_of (container (sqlalchemy_models state_both)) ''T'' = Some scenario_segmentation_model \<and>
    make_model_from_schema example_package state_both ''T'' scenario_schema (Some ''seg1'')
      base_metadata True = (Inr scenario_segmentation_model, state_both) \<and>
    make_sqlalchemy_model example_package state_both ''T'' ''cell_type'' (Some ''seg1'')
      base_metadata True = (Inr scenario_segmentation_model, state_both)) \<and>
   (map_of (flat_container (sqlalchemy_models state_both)) ''T'' = Some scenario_flat_model \<and>
    make_flat_model_from_schema example_package state_both ''T'' scenario_schema (Some ''seg1'')
      base_metadata = (Inr scenario_flat_model, state_both) \<and>
    make_flat_model example_package state_both ''T'' ''cell_type'' (Some ''seg1'')
      base_metadata = (Inr scenario_flat_model, state_both)) \<and>
   (make_model_from_schema example_package initial_state ''T'' scenario_schema (Some ''seg1'')
      base_metadata True = (Inr scenario_segmentation_model, state_one) \<and>
    make_model_from_schema example_package state_one ''T'' scenario_schema (Some ''seg1'')
      base_metadata True = (Inr scenario_segmentation_model, state_one) \<and>
    \<not> runs_builder
        (run example_package state_one
           [Make_flat_model_from_schema ''T'' scenario_schema None base_metadata])
        ''T'' False) \<and>
   (make_flat_model_from_schema example_package state_one ''T'' scenario_schema None
      base_metadata = (Inr scenario_flat_model, state_both) \<and>
    make_flat_model_from_schema example_package state_both ''T'' scenario_schema None
      base_metadata = (Inr scenario_flat_model, state_both) \<and>
    \<not> runs_builder (run example_package state_both []) ''T'' True) \<and>
   (\<exists>dd. make_dataset_models example_package state_both ''vol'' [(''cell_type'', ''T'')]
            None False (Some []) True = (Inr dd, state_both) \<and>
         map_of dd ''T'' = Some scenario_segmentation_model) \<and>
   one_build_per_key
     (run example_package initial_state
        [Make_model_from_schema ''T'' scenario_schema (Some ''seg1'') base_metadata True,
         Make_flat_model_from_schema ''T'' scenario_schema None base_metadata,
         Make_model_from_schema ''T'' scenario_schema None base_metadata True])"
proof -
  have h1: "map_of (container (sqlalchemy_models state_both)) ''T'' = Some scenario_segmentation_model"
    by (simp add: state_both_def state_with_def)
  have h2: "map_of (flat_container (sqlalchemy_models state_both)) ''T'' = Some scenario_flat_model"
    by (simp add: state_both_def state_with_def)
  have h3: "make_model_from_schema example_package initial_state ''T'' scenario_schema (Some ''seg1'')
      base_metadata True = (Inr scenario_segmentation_model, state_one)"
    by code_simp
  have h4: "make_flat_model_from_schema example_package state_one ''T'' scenario_schema None
      base_metadata = (Inr scenario_flat_model, state_both)"
    by code_simp
  have h5: "get_schema example_package ''cell_type'' = Inr (example_schema [])"
    by (simp add: example_package_def)
  have h6: "\<forall>(sn, tn) \<in> set [(''cell_type'', ''T'')].
        sn \<in> set (get_types example_package) \<and> (\<exists>Ssn. get_schema example_package sn = Inr Ssn) \<and>
        map_of (container (sqlalchemy_models state_both)) tn \<noteq> None"
    by (simp add: example_package_def state_both_def state_with_def)
  note inst = model_registry_idempotent
    [where pkg = example_package and s = state_both and t = "''T''" and S = scenario_schema
       and src = "Some ''seg1''" and tmd = base_metadata and crud = True
       and m = scenario_segmentation_model and fm = scenario_flat_model
       and ty = "''cell_type''" and Sty = "example_schema []"
       and sA = initial_state and tA = "''T''" and SA = scenario_schema
       and srcA = "Some ''seg1''" and tmdA = base_metadata and crudA = True
       and mA = scenario_segmentation_model and sA' = state_one
       and callsA = "[Make_flat_model_from_schema ''T'' scenario_schema None base_metadata]"
       and sB = state_one and tB = "''T''" and SB = scenario_schema
       and srcB = None and tmdB = base_metadata
       and mB = scenario_flat_model and sB' = state_both and callsB = "[]"
       and sE = state_both and sts = "[(''cell_type'', ''T'')]" and av = "''vol''"
       and srcE = None and mdd = "[]" and crudE = True]
  from inst h1 h2 h3 h4 h5 h6 show ?thesis by simp
qed

subsection \<open>C3: the header of a segmentation table\<close>

text \<open>
  Claim C3, as stated, fails for a schema that has a retained field named \<^verbatim>\<open>id\<close>: the loop
  over the fields stores the field's column under \<^verbatim>\<open>id\<close>, in place of the primary key.
  The dict below is built with the suffix \<^verbatim>\<open>seg1\<close>, and its \<^verbatim>\<open>id\<close> is a plain string column.
\<close>

theorem segmentation_header_counterexample:
  "create_table_dict example_package ''T'' (example_schema [(''id'', plain_field mm_String)])
     (Some ''seg1'') TM_None False =
   Inr [(''__tablename__'', Name ''T__seg1''),
        (''id'', Col \<lparr>col_type = String_t, col_foreign_key = None, col_primary_key = False,
                      col_index = PyBool False, col_nullable = None\<rparr>),
        (''__mapper_args__'', MapperArgs ''T__seg1'' True)]"
  by code_simp

text \<open>
  Claim C3, amended. For every table dict built with a segmentation source that is not
  empty, from a schema none of whose retained fields is named \<^verbatim>\<open>__tablename__\<close>, \<^verbatim>\<open>id\<close> or
  \<^verbatim>\<open>__mapper_args__\<close>: the table name is \<^verbatim>\<open><table_name>__<segmentation_source>\<close>, the
  \<^verbatim>\<open>id\<close> column is a big-integer primary key with a foreign key to \<^verbatim>\<open><table_name>.id\<close>, the
  polymorphic identity is the compound name, and the mapper args say \<^verbatim>\<open>concrete\<close>.
\<close>

theorem segmentation_header:
  assumes "create_table_dict pkg table_name Schema (Some source) tmd crud = Inr d"
      and "source \<noteq> []"
      and "\<forall>(k, f) \<in> set (declared_fields Schema).
             \<not> drop_column f \<longrightarrow> k \<notin> {''__tablename__'', ''id'', ''__mapper_args__''}"
  shows "map_of d ''__tablename__'' = Some (Name (table_name @ ''__'' @ source)) \<and>
         map_of d ''id'' =
           Some (Col \<lparr>col_type = BigInteger,
                      col_foreign_key = Some (ForeignKey (table_name @ ''.id'')),
                      col_primary_key = True, col_index = PyNone, col_nullable = None\<rparr>) \<and>
         map_of d ''__mapper_args__'' = Some (MapperArgs (table_name @ ''__'' @ source) True)"
proof -
  let ?m = "table_header table_name (Some source) @ (if crud then crud_columns else [])"
  from assms(1) have r: "add_fields pkg tmd ?m (declared_fields Schema) = Inr d"
    by (simp add: create_table_dict_unfold)
  have other: "map_of d k = map_of ?m k"
    if "k \<in> {''__tablename__'', ''id'', ''__mapper_args__''}" for k
  proof (rule add_fields_other [OF r])
    from that show "k \<noteq> ''reference_table_name''" by auto
    from that assms(3) show "\<forall>(k', f) \<in> set (declared_fields Schema). \<not> drop_column f \<longrightarrow> k' \<noteq> k"
      by fastforce
  qed
  from assms(2) have "map_of ?m ''__tablename__'' = Some (Name (table_name @ ''__'' @ source))"
    "map_of ?m ''id'' =
           Some (Col \<lparr>col_type = BigInteger,
                      col_foreign_key = Some (ForeignKey (table_name @ ''.id'')),
                      col_primary_key = True, col_index = PyNone, col_nullable = None\<rparr>)"
    "map_of ?m ''__mapper_args__'' = Some (MapperArgs (table_name @ ''__'' @ source) True)"
    by (simp_all add: table_header_def)
  with other show ?thesis by simp
qed

theorem segmentation_header_witness:
  "map_of scenario_segmentation_dict ''__tablename__'' = Some (Name ''T__seg1'') \<and>
   map_of scenario_segmentation_dict ''id'' =
     Some (Col \<lparr>col_type = BigInteger, col_foreign_key = Some (ForeignKey ''T.id''),
                col_primary_key = True, col_index = PyNone, col_nullable = None\<rparr>) \<and>
   map_of scenario_segmentation_dict ''__mapper_args__'' = Some (MapperArgs ''T__seg1'' True) \<and>
   create_table_dict example_package ''T''
     (example_schema [(''supervoxel_id'', reference_field ReferenceTableField)])
     (Some ''seg1'') base_metadata True = Inr scenario_segmentation_dict"
proof -
  have h1: "create_table_dict example_package ''T''
     (example_schema [(''supervoxel_id'', reference_field ReferenceTableField)])
     (Some ''seg1'') base_metadata True = Inr scenario_segmentation_dict"
    by code_simp
  have h2: "''seg1'' \<noteq> []" by simp
  have h3: "\<forall>(k, f) \<in> set (declared_fields
                (example_schema [(''supervoxel_id'', reference_field ReferenceTableField)])).
             \<not> drop_column f \<longrightarrow> k \<notin> {''__tablename__'', ''id'', ''__mapper_args__''}"
    by (simp add: example_schema_def)
  from segmentation_header [OF h1 h2 h3] h1 show ?thesis by simp
qed

subsection \<open>C4: a reference field without reference metadata\<close>

text \<open>
  Claim C4, as stated, fails: a schema may contain a reference field that the call does
  not build. Here the reference field is an annotation field, and the call builds the
  segmentation table: with no table metadata at all it returns a model, and the model is
  stored under the table name.
\<close>

theorem missing_reference_metadata_counterexample:
  "make_model_from_schema example_package initial_state ''T''
     (example_schema [(''target_id'', reference_field ReferenceTableField)])
     (Some ''seg1'') TM_None False =
   (Inr \<lparr>object_id = 0, class_name = ''T__seg1'', class_base = Base,
         class_dict =
           [(''__tablename__'', Name ''T__seg1''),
            (''id'', Col \<lparr>col_type = BigInteger, col_foreign_key = Some (ForeignKey ''T.id''),
                          col_primary_key = True, col_index = PyNone, col_nullable = None\<rparr>),
            (''__mapper_args__'', MapperArgs ''T__seg1'' True)]\<rparr>,
    state_with
      [(''T'', \<lparr>object_id = 0, class_name = ''T__seg1'', class_base = Base,
         class_dict =
           [(''__tablename__'', Name ''T__seg1''),
            (''id'', Col \<lparr>col_type = BigInteger, col_foreign_key = Some (ForeignKey ''T.id''),
                          col_primary_key = True, col_index = PyNone, col_nullable = None\<rparr>),
            (''__mapper_args__'', MapperArgs ''T__seg1'' True)]\<rparr>)] [] [''T__seg1''] [])"
  by code_simp

text \<open>
  Claim C4, amended. If the table name is not cached, the half of the schema that the
  call builds (the segmentation fields when a segmentation source is given, the
  annotation fields otherwise) has a retained field marked as a reference, every retained
  field before it has a type of the type table (and is marked as a reference if it is a
  \<^verbatim>\<open>ReferenceTableField\<close>), and the table metadata is not a dict or has no key
  \<^verbatim>\<open>reference_table\<close>, then \<^verbatim>\<open>make_model_from_schema\<close> raises
  \<open>InvalidTableMetaDataException\<close> and the state is unchanged: nothing is stored under
  the table name. And whatever exception \<^verbatim>\<open>make_model_from_schema\<close> raises, it leaves the
  registry as it was, and no class is made.
\<close>

theorem missing_reference_metadata_raises:
  "(map_of (container (sqlalchemy_models s)) table_name = None \<longrightarrow>
    split_annotation_schema pkg Schema = Inr (annotation_columns, segmentation_columns) \<longrightarrow>
    declared_fields (if truthy_source segmentation_source then segmentation_columns
                     else annotation_columns) = pre @ (k, f) # post \<longrightarrow>
    \<not> drop_column f \<longrightarrow> is_reference pkg f \<longrightarrow>
    (\<forall>(k', f') \<in> set pre. \<not> drop_column f' \<longrightarrow>
        field_column_map (field_type f') \<noteq> None \<and>
        (field_type f' = ReferenceTableField \<longrightarrow> is_reference pkg f')) \<longrightarrow>
    (\<forall>dd. tmd = TM_dict dd \<longrightarrow> map_of dd ''reference_table'' = None) \<longrightarrow>
    make_model_from_schema pkg s table_name Schema segmentation_source tmd crud =
      (Inl (missing_reference_error tmd), s)) \<and>
   (make_model_from_schema pkg sB table_nameB SchemaB segmentation_sourceB tmdB crudB = (Inl e, sB') \<longrightarrow>
    sqlalchemy_models sB' = sqlalchemy_models sB \<and> classes_made sB' = classes_made sB)"
proof (intro conjI impI)
  assume miss: "map_of (container (sqlalchemy_models s)) table_name = None"
     and split: "split_annotation_schema pkg Schema = Inr (annotation_columns, segmentation_columns)"
     and fs: "declared_fields (if truthy_source segmentation_source then segmentation_columns
                     else annotation_columns) = pre @ (k, f) # post"
     and nd: "\<not> drop_column f" and ref: "is_reference pkg f"
     and pre: "\<forall>(k', f') \<in> set pre. \<not> drop_column f' \<longrightarrow>
        field_column_map (field_type f') \<noteq> None \<and>
        (field_type f' = ReferenceTableField \<longrightarrow> is_reference pkg f')"
     and tmd: "\<forall>dd. tmd = TM_dict dd \<longrightarrow> map_of dd ''reference_table'' = None"
  from add_fields_missing_reference [OF tmd nd ref pre] fs
  have "create_table_dict pkg table_name
          (if truthy_source segmentation_source then segmentation_columns else annotation_columns)
          (if truthy_source segmentation_source then segmentation_source else None) tmd crud =
        Inl (missing_reference_error tmd)"
    by (simp only: create_table_dict_unfold)
  then show "make_model_from_schema pkg s table_name Schema segmentation_source tmd crud =
      (Inl (missing_reference_error tmd), s)"
    by (rule make_model_from_schema_build_error [OF miss split])
next
  assume "make_model_from_schema pkg sB table_nameB SchemaB segmentation_sourceB tmdB crudB = (Inl e, sB')"
  from make_model_from_schema_error_registry [OF this]
  show "sqlalchemy_models sB' = sqlalchemy_models sB" by simp
next
  assume "make_model_from_schema pkg sB table_nameB SchemaB segmentation_sourceB tmdB crudB = (Inl e, sB')"
  from make_model_from_schema_error_registry [OF this]
  show "classes_made sB' = classes_made sB" by simp
qed

theorem missing_reference_metadata_raises_witness:
  "make_model_from_schema example_package initial_state ''T'' scenario_schema (Some ''seg1'')
     TM_None True = (Inl (InvalidTableMetaDataException No_metadata_provided), initial_state) \<and>
   make_model_from_schema example_package initial_state ''T'' scenario_schema (Some ''seg1'')
     (TM_dict [(''other'', PyStr ''x'')]) True =
     (Inl (InvalidTableMetaDataException (Reference_table_not_specified [(''other'', PyStr ''x'')])),
      initial_state)"
proof -
  let ?f = "\<lparr>field_type = ReferenceTableField,
          metadata = [(''segmentation_field'', PyBool True), (''metadata'', PyStr ''reference'')]\<rparr>"
  let ?A = "\<lparr>schema_class_name = ''FlatS_annotation'',
             declared_fields =
               [(''pt'', \<lparr>field_type = PostGISField, metadata = [(''index'', PyBool True)]\<rparr>),
                (''category'', plain_field mm_String),
                (''classification_system'', plain_field mm_String)]\<rparr>"
  let ?G = "\<lparr>schema_class_name = ''FlatS_segmentation'',
             declared_fields = [(''supervoxel_id'', ?f)]\<rparr>"
  have h1: "map_of (container (sqlalchemy_models initial_state)) ''T'' = None"
    by (simp add: initial_state_def ModelStore_init_def)
  have h2: "split_annotation_schema example_package scenario_schema = Inr (?A, ?G)"
    by (simp add: split_annotation_schema_def example_package_def scenario_schema_def
          example_schema_def plain_field_def dict_get_def convert_dict_to_schema_def)
  have h3: "declared_fields (if truthy_source (Some ''seg1'') then ?G else ?A) =
            [] @ (''supervoxel_id'', ?f) # []"
    by simp
  have h4: "\<not> drop_column ?f" by (simp add: dict_get_def)
  have h5: "is_reference example_package ?f" by (simp add: dict_get_def example_package_def)
  note inst = missing_reference_metadata_raises
    [where pkg = example_package and s = initial_state and table_name = "''T''"
       and Schema = scenario_schema and annotation_columns = ?A and segmentation_columns = ?G
       and segmentation_source = "Some ''seg1''" and pre = "[]" and k = "''supervoxel_id''"
       and f = ?f and post = "[]" and crud = True]
  from inst [where tmd = TM_None, THEN conjunct1] h1 h2 h3 h4 h5
  have a: "make_model_from_schema example_package initial_state ''T'' scenario_schema (Some ''seg1'')
     TM_None True = (Inl (InvalidTableMetaDataException No_metadata_provided), initial_state)"
    by (simp add: missing_reference_error_def)
  from inst [where tmd = "TM_dict [(''other'', PyStr ''x'')]", THEN conjunct1] h1 h2 h3 h4 h5
  have b: "make_model_from_schema example_package initial_state ''T'' scenario_schema (Some ''seg1'')
     (TM_dict [(''other'', PyStr ''x'')]) True =
     (Inl (InvalidTableMetaDataException (Reference_table_not_specified [(''other'', PyStr ''x'')])),
      initial_state)"
    by (simp add: missing_reference_error_def)
  from a b show ?thesis by (rule conjI)
qed

subsection \<open>C5: the audit columns\<close>

text \<open>
  Claim C5, as stated, fails: the third audit column is named \<^verbatim>\<open>superceded_id\<close>, and the
  dict has no entry \<^verbatim>\<open>superseded_id\<close>. And a retained field named as an audit column takes
  its place: with a string field \<^verbatim>\<open>created\<close>, the entry \<^verbatim>\<open>created\<close> is the string column.
\<close>

theorem crud_columns_counterexample:
  "map_sum id (map fst) (create_table_dict example_package ''T'' (example_schema []) None TM_None True) =
     Inr [''__tablename__'', ''id'', ''__mapper_args__'', ''created'', ''deleted'', ''superceded_id''] \<and>
   map_sum id (\<lambda>d. map_of d ''superseded_id'')
     (create_table_dict example_package ''T'' (example_schema []) None TM_None True) = Inr None \<and>
   map_sum id (\<lambda>d. map_of d ''created'')
     (create_table_dict example_package ''T'' (example_schema [(''created'', plain_field mm_String)])
        None TM_None True) =
     Inr (Some (Col \<lparr>col_type = String_t, col_foreign_key = None, col_primary_key = False,
                      col_index = PyBool False, col_nullable = None\<rparr>))"
  by code_simp

text \<open>
  Claim C5, amended. When the audit columns are requested and no retained field is named
  \<^verbatim>\<open>created\<close>, \<^verbatim>\<open>deleted\<close> or \<^verbatim>\<open>superceded_id\<close>, the table dict has the column \<^verbatim>\<open>created\<close>
  (timestamp, indexed, \<^verbatim>\<open>nullable=False\<close>), the column \<^verbatim>\<open>deleted\<close> (timestamp, indexed,
  nullability left to the default) and the column \<^verbatim>\<open>superceded_id\<close> (big integer,
  nullability left to the default), and these three entries are exactly what it has
  more than the dict built without audit columns: removing them gives that dict.
\<close>

theorem crud_columns_added:
  assumes "create_table_dict pkg table_name Schema segmentation_source tmd True = Inr d"
      and "\<forall>(k, f) \<in> set (declared_fields Schema).
             \<not> drop_column f \<longrightarrow> k \<notin> {''created'', ''deleted'', ''superceded_id''}"
  shows "map_of d ''created'' =
           Some (Col \<lparr>col_type = DateTime, col_foreign_key = None, col_primary_key = False,
                      col_index = PyBool True, col_nullable = Some False\<rparr>) \<and>
         map_of d ''deleted'' =
           Some (Col \<lparr>col_type = DateTime, col_foreign_key = None, col_primary_key = False,
                      col_index = PyBool True, col_nullable = None\<rparr>) \<and>
         map_of d ''superceded_id'' =
           Some (Col \<lparr>col_type = BigInteger, col_foreign_key = None, col_primary_key = False,
                      col_index = PyNone, col_nullable = None\<rparr>) \<and>
         create_table_dict pkg table_name Schema segmentation_source tmd False =
           Inr (filter (\<lambda>(k, e). k \<notin> {''created'', ''deleted'', ''superceded_id''}) d)"
proof -
  let ?K = "{''created'', ''deleted'', ''superceded_id''}"
  let ?h = "table_header table_name segmentation_source"
  from assms(1) have r: "add_fields pkg tmd (?h @ crud_columns) (declared_fields Schema) = Inr d"
    by (simp add: create_table_dict_unfold)
  have other: "map_of d k = map_of (?h @ crud_columns) k" if "k \<in> ?K" for k
  proof (rule add_fields_other [OF r])
    from that show "k \<noteq> ''reference_table_name''" by auto
    from that assms(2) show "\<forall>(k', f) \<in> set (declared_fields Schema). \<not> drop_column f \<longrightarrow> k' \<noteq> k"
      by fastforce
  qed
  have hd: "filter (\<lambda>(k, e). k \<notin> ?K) (?h @ crud_columns) = ?h"
    by (simp add: table_header_def crud_columns_def split: option.splits)
  have "add_fields pkg tmd (filter (\<lambda>(k, e). k \<notin> ?K) (?h @ crud_columns)) (declared_fields Schema) =
        map_sum id (filter (\<lambda>(k, e). k \<notin> ?K)) (add_fields pkg tmd (?h @ crud_columns) (declared_fields Schema))"
    by (rule add_fields_filter) (use assms(2) in auto)
  with r hd have "create_table_dict pkg table_name Schema segmentation_source tmd False =
           Inr (filter (\<lambda>(k, e). k \<notin> ?K) d)"
    by (simp add: create_table_dict_unfold)
  moreover have "map_of (?h @ crud_columns) ''created'' =
           Some (Col \<lparr>col_type = DateTime, col_foreign_key = None, col_primary_key = False,
                      col_index = PyBool True, col_nullable = Some False\<rparr>)"
    "map_of (?h @ crud_columns) ''deleted'' =
           Some (Col \<lparr>col_type = DateTime, col_foreign_key = None, col_primary_key = False,
                      col_index = PyBool True, col_nullable = None\<rparr>)"
    "map_of (?h @ crud_columns) ''superceded_id'' =
           Some (Col \<lparr>col_type = BigInteger, col_foreign_key = None, col_primary_key = False,
                      col_index = PyNone, col_nullable = None\<rparr>)"
    by (simp_all add: table_header_def crud_columns_def split: option.splits)
  ultimately show ?thesis using other by simp
qed


theorem crud_columns_added_witness:
  "map_of scenario_segmentation_dict ''created'' =
     Some (Col \<lparr>col_type = DateTime, col_foreign_key = None, col_primary_key = False,
                col_index = PyBool True, col_nullable = Some False\<rparr>) \<and>
   map_of scenario_segmentation_dict ''deleted'' =
     Some (Col \<lparr>col_type = DateTime, col_foreign_key = None, col_primary_key = False,
                col_index = PyBool True, col_nullable = None\<rparr>) \<and>
   map_of scenario_segmentation_dict ''superceded_id'' =
     Some (Col \<lparr>col_type = BigInteger, col_foreign_key = None, col_primary_key = False,
                col_index = PyNone, col_nullable = None\<rparr>) \<and>
   create_table_dict example_package ''T''
     (example_schema [(''supervoxel_id'', reference_field ReferenceTableField)])
     (Some ''seg1'') base_metadata True = Inr scenario_segmentation_dict \<and>
   create_table_dict example_package ''T''
     (example_schema [(''supervoxel_id'', reference_field ReferenceTableField)])
     (Some ''seg1'') base_metadata False =
     Inr (filter (\<lambda>(k, e). k \<notin> {''created'', ''deleted'', ''superceded_id''})
            scenario_segmentation_dict)"
proof -
  have h1: "create_table_dict example_package ''T''
     (example_schema [(''supervoxel_id'', reference_field ReferenceTableField)])
     (Some ''seg1'') base_metadata True = Inr scenario_segmentation_dict"
    by code_simp
  have h2: "\<forall>(k, f) \<in> set (declared_fields
                (example_schema [(''supervoxel_id'', reference_field ReferenceTableField)])).
             \<not> drop_column f \<longrightarrow> k \<notin> {''created'', ''deleted'', ''superceded_id''}"
    by (simp add: example_schema_def)
  from crud_columns_added [OF h1 h2] h1 show ?thesis by simp
qed

subsection \<open>C6: every unknown schema name is reported\<close>

text \<open>
  Claim C6. If some schema name of the list is not among \<^verbatim>\<open>get_types()\<close>,
  \<^verbatim>\<open>validate_types\<close> raises \<open>UnknownAnnotationTypeException\<close>, and the list its message
  prints is the list of all the schema names of the input that are not registered, in
  the order of the input. \<^verbatim>\<open>make_dataset_models\<close> raises the same exception and leaves
  the state as it is.
\<close>

theorem validate_types_names_every_unknown_type:
  assumes "\<exists>(schema_name, table_name) \<in> set schemas_and_tables. schema_name \<notin> set (get_types pkg)"
  shows "validate_types pkg schemas_and_tables =
           Inl (UnknownAnnotationTypeException
                  (filter (\<lambda>schema_name. schema_name \<notin> set (get_types pkg))
                          (map fst schemas_and_tables))) \<and>
         make_dataset_models pkg s aligned_volume schemas_and_tables segmentation_source
             include_contacts metadata_dict with_crud_columns =
           (Inl (UnknownAnnotationTypeException
                  (filter (\<lambda>schema_name. schema_name \<notin> set (get_types pkg))
                          (map fst schemas_and_tables))), s)"
proof -
  have f: "map fst (filter (\<lambda>(schema_name, table_name). schema_name \<notin> set (get_types pkg)) sts) =
           filter (\<lambda>schema_name. schema_name \<notin> set (get_types pkg)) (map fst sts)" for sts
    by (induction sts) auto
  from assms have "\<not> list_all (\<lambda>(schema_name, table_name). schema_name \<in> set (get_types pkg))
                       schemas_and_tables"
    by (auto simp: list_all_iff)
  then have "validate_types pkg schemas_and_tables =
           Inl (UnknownAnnotationTypeException
                  (filter (\<lambda>schema_name. schema_name \<notin> set (get_types pkg))
                          (map fst schemas_and_tables)))"
    by (simp add: validate_types_def Let_def f)
  then show ?thesis by (simp add: make_dataset_models_def)
qed

theorem validate_types_names_every_unknown_type_witness:
  "(\<exists>(schema_name, table_name) \<in> set [(''bogus'', ''t1''), (''cell_type'', ''t2''), (''nope'', ''t3'')].
       schema_name \<notin> set (get_types example_package)) \<and>
   validate_types example_package [(''bogus'', ''t1''), (''cell_type'', ''t2''), (''nope'', ''t3'')] =
     Inl (UnknownAnnotationTypeException [''bogus'', ''nope'']) \<and>
   make_dataset_models example_package initial_state ''vol''
       [(''bogus'', ''t1''), (''cell_type'', ''t2''), (''nope'', ''t3'')] None False (Some []) True =
     (Inl (UnknownAnnotationTypeException [''bogus'', ''nope'']), initial_state)"
proof -
  have h: "\<exists>(schema_name, table_name) \<in> set [(''bogus'', ''t1''), (''cell_type'', ''t2''), (''nope'', ''t3'')].
       schema_name \<notin> set (get_types example_package)"
    by (simp add: example_package_def)
  from validate_types_names_every_unknown_type [OF h, of initial_state "''vol''" None False "Some []" True] h
  show ?thesis by (simp add: example_package_def)
qed

subsection \<open>C7: dropped and retained fields\<close>

text \<open>
  Claim C7, as stated, fails twice. A dropped field named \<^verbatim>\<open>id\<close> does not keep the column
  \<^verbatim>\<open>id\<close> out of the dict: the primary key is there. And a retained field named
  \<^verbatim>\<open>reference_table_name\<close> contributes no column when a reference field follows it:
  \<^verbatim>\<open>validate_metadata\<close> overwrites its column with the name of the reference table and
  \<^verbatim>\<open>add_column\<close> pops the entry.
\<close>

theorem drop_column_counterexample:
  "create_table_dict example_package ''T'' (example_schema [(''id'', dropped_field mm_String)])
     None TM_None False =
   Inr [(''__tablename__'', Name ''T''),
        (''id'', Col \<lparr>col_type = BigInteger, col_foreign_key = None, col_primary_key = True,
                      col_index = PyNone, col_nullable = None\<rparr>),
        (''__mapper_args__'', MapperArgs ''T'' True)] \<and>
   create_table_dict example_package ''T''
     (example_schema [(''reference_table_name'', plain_field mm_String),
                      (''target_id'', reference_field ReferenceTableField)])
     None base_metadata False =
   Inr [(''__tablename__'', Name ''T''),
        (''id'', Col \<lparr>col_type = BigInteger, col_foreign_key = None, col_primary_key = True,
                      col_index = PyNone, col_nullable = None\<rparr>),
        (''__mapper_args__'', MapperArgs ''T'' True),
        (''target_id'', Col \<lparr>col_type = BigInteger, col_foreign_key = Some (ForeignKey ''base.id''),
                      col_primary_key = False, col_index = PyBool False, col_nullable = None\<rparr>)]"
  by code_simp

text \<open>
  Claim C7, amended. In a table dict that \<^verbatim>\<open>create_table_dict\<close> returns (the field names
  being the keys of a dict, hence distinct): for every field with \<^verbatim>\<open>drop_column\<close> set whose
  name is not \<^verbatim>\<open>id\<close> and, when audit columns are requested, not \<^verbatim>\<open>created\<close>, \<^verbatim>\<open>deleted\<close> or
  \<^verbatim>\<open>superceded_id\<close>, there is no column under the field's name; and every field without
  \<^verbatim>\<open>drop_column\<close> whose name is not \<^verbatim>\<open>reference_table_name\<close> has exactly one entry under
  its name, a column; and the class of every field without \<^verbatim>\<open>drop_column\<close> is in the type
  table, so that it is no nested field: for a retained field of another class
  \<^verbatim>\<open>create_table_dict\<close> returns no dict.
\<close>

theorem drop_column_omitted_retained_added:
  assumes "create_table_dict pkg table_name Schema segmentation_source tmd crud = Inr d"
      and "distinct (map fst (declared_fields Schema))"
  shows "(\<forall>(k, f) \<in> set (declared_fields Schema).
            drop_column f \<longrightarrow> k \<noteq> ''id'' \<longrightarrow>
            (crud \<longrightarrow> k \<notin> {''created'', ''deleted'', ''superceded_id''}) \<longrightarrow>
            (\<forall>c. map_of d k \<noteq> Some (Col c))) \<and>
         (\<forall>(k, f) \<in> set (declared_fields Schema).
            \<not> drop_column f \<longrightarrow> k \<noteq> ''reference_table_name'' \<longrightarrow>
            (\<exists>c. map_of d k = Some (Col c)) \<and> length (filter (\<lambda>(k', e). k' = k) d) = 1) \<and>
         (\<forall>(k, f) \<in> set (declared_fields Schema).
            \<not> drop_column f \<longrightarrow>
            field_column_map (field_type f) \<noteq> None \<and> \<not> isinstance_Nested (field_type f))"
proof (intro conjI ballI)
  let ?m = "table_header table_name segmentation_source @ (if crud then crud_columns else [])"
  from assms(1) have r: "add_fields pkg tmd ?m (declared_fields Schema) = Inr d"
    by (simp add: create_table_dict_unfold)
  {
    fix p assume p: "p \<in> set (declared_fields Schema)"
    obtain k f where kf: "p = (k, f)" by (cases p)
    have "drop_column f \<longrightarrow> k \<noteq> ''id'' \<longrightarrow>
            (crud \<longrightarrow> k \<notin> {''created'', ''deleted'', ''superceded_id''}) \<longrightarrow>
            (\<forall>c. map_of d k \<noteq> Some (Col c))"
    proof (intro impI allI)
      fix c
      assume dr: "drop_column f" and id: "k \<noteq> ''id''"
         and cr: "crud \<longrightarrow> k \<notin> {''created'', ''deleted'', ''superceded_id''}"
      have none: "\<forall>(k', f') \<in> set (declared_fields Schema). \<not> drop_column f' \<longrightarrow> k' \<noteq> k"
      proof (intro ballI, clarify)
        fix f' assume "(k, f') \<in> set (declared_fields Schema)" "\<not> drop_column f'"
        with distinct_key_value [OF assms(2), of k f f'] p kf dr show False by simp
      qed
      from id cr have "\<forall>c. map_of ?m k \<noteq> Some (Col c)"
        by (auto simp: table_header_def crud_columns_def split: option.splits if_splits)
      from add_fields_no_column [OF r none this] show "map_of d k \<noteq> Some (Col c)" .
    qed
    with kf show "case p of (k, f) \<Rightarrow> drop_column f \<longrightarrow> k \<noteq> ''id'' \<longrightarrow>
            (crud \<longrightarrow> k \<notin> {''created'', ''deleted'', ''superceded_id''}) \<longrightarrow>
            (\<forall>c. map_of d k \<noteq> Some (Col c))" by simp
  }
  {
    fix p assume p: "p \<in> set (declared_fields Schema)"
    obtain k f where kf: "p = (k, f)" by (cases p)
    have "\<not> drop_column f \<longrightarrow> k \<noteq> ''reference_table_name'' \<longrightarrow>
            (\<exists>c. map_of d k = Some (Col c)) \<and> length (filter (\<lambda>(k', e). k' = k) d) = 1"
    proof (intro impI)
      assume nd: "\<not> drop_column f" and ne: "k \<noteq> ''reference_table_name''"
      from p kf have mem: "(k, f) \<in> set (declared_fields Schema)" by simp
      from add_fields_column [OF r assms(2) mem nd ne] obtain c where c: "map_of d k = Some (Col c)" ..
      from add_fields_distinct [OF r table_header_lookup(2)] have "distinct (map fst d)" .
      from distinct_count_one [OF this c] c
      show "(\<exists>c. map_of d k = Some (Col c)) \<and> length (filter (\<lambda>(k', e). k' = k) d) = 1" by simp
    qed
    with kf show "case p of (k, f) \<Rightarrow> \<not> drop_column f \<longrightarrow> k \<noteq> ''reference_table_name'' \<longrightarrow>
            (\<exists>c. map_of d k = Some (Col c)) \<and> length (filter (\<lambda>(k', e). k' = k) d) = 1" by simp
  }
  {
    fix p assume p: "p \<in> set (declared_fields Schema)"
    obtain k f where kf: "p = (k, f)" by (cases p)
    have "\<not> drop_column f \<longrightarrow>
            field_column_map (field_type f) \<noteq> None \<and> \<not> isinstance_Nested (field_type f)"
    proof (intro impI)
      assume nd: "\<not> drop_column f"
      from p kf have mem: "(k, f) \<in> set (declared_fields Schema)" by simp
      from add_fields_supported [OF r mem nd]
      show "field_column_map (field_type f) \<noteq> None \<and> \<not> isinstance_Nested (field_type f)"
        by (cases "field_type f") simp_all
    qed
    with kf show "case p of (k, f) \<Rightarrow> \<not> drop_column f \<longrightarrow>
            field_column_map (field_type f) \<noteq> None \<and> \<not> isinstance_Nested (field_type f)" by simp
  }
qed

theorem drop_column_omitted_retained_added_witness:
  "map_sum id (\<lambda>d. (map_of d ''type'', map_of d ''category'',
                     length (filter (\<lambda>(k', e). k' = ''category'') d)))
     (create_table_dict example_package ''T''
        (example_schema [(''type'', dropped_field mm_String), (''category'', plain_field mm_String)])
        None TM_None True) =
   Inr (None,
        Some (Col \<lparr>col_type = String_t, col_foreign_key = None, col_primary_key = False,
                   col_index = PyBool False, col_nullable = None\<rparr>),
        1)"
proof -
  let ?S = "example_schema [(''type'', dropped_field mm_String), (''category'', plain_field mm_String)]"
  obtain d where h1: "create_table_dict example_package ''T'' ?S None TM_None True = Inr d"
    and d: "d = table_header ''T'' None @ crud_columns @
                [(''category'', Col \<lparr>col_type = String_t, col_foreign_key = None,
                    col_primary_key = False, col_index = PyBool False, col_nullable = None\<rparr>)]"
    by (simp add: create_table_dict_unfold example_schema_def dropped_field_def plain_field_def
          table_header_def crud_columns_def dict_get_def validate_metadata_def add_column_def
          example_package_def Column_def)
  have h2: "distinct (map fst (declared_fields ?S))"
    by (simp add: example_schema_def)
  from drop_column_omitted_retained_added [OF h1 h2]
  have "(\<forall>c. map_of d ''type'' \<noteq> Some (Col c)) \<and>
        (\<exists>c. map_of d ''category'' = Some (Col c)) \<and>
        length (filter (\<lambda>(k', e). k' = ''category'') d) = 1"
    by (simp add: example_schema_def dropped_field_def plain_field_def dict_get_def)
  with h1 d show ?thesis
    by (simp add: table_header_def crud_columns_def)
qed

subsection \<open>C8: the full cache is keyed by the table name alone\<close>

text \<open>
  Claim C8, as stated, fails for \<^verbatim>\<open>make_sqlalchemy_model\<close>: it resolves its schema type with
  \<^verbatim>\<open>get_schema\<close> before \<^verbatim>\<open>make_model_from_schema\<close> looks into the cache. With the table \<^verbatim>\<open>T\<close>
  cached, a call for \<^verbatim>\<open>T\<close> with a schema type that \<^verbatim>\<open>get_schema\<close> does not know raises
  instead of returning the cached model.
\<close>

theorem cached_table_unknown_type_counterexample:
  "make_model_from_schema example_package initial_state ''T'' scenario_schema (Some ''seg1'')
     base_metadata True = (Inr scenario_segmentation_model, state_one) \<and>
   make_sqlalchemy_model example_package state_one ''T'' ''nope'' (Some ''seg1'')
     base_metadata True = (Inl (UnknownAnnotationTypeException [''nope'']), state_one)"
  by code_simp

text \<open>
  Claim C8, amended. Once \<^verbatim>\<open>make_model_from_schema\<close> has built and cached a model for a
  table name (\<^verbatim>\<open>make_sqlalchemy_model\<close> is the same call, on the schema that \<^verbatim>\<open>get_schema\<close>
  gives), then after any further calls of the entry points, \<^verbatim>\<open>make_model_from_schema\<close>
  with that table name returns that model and leaves the state as it is, whatever schema,
  segmentation source, table metadata and crud flag it is given; and so does
  \<^verbatim>\<open>make_sqlalchemy_model\<close> whenever \<^verbatim>\<open>get_schema\<close> gives a schema for its schema type,
  whatever that schema is.
\<close>

theorem full_cache_keyed_by_table_name_alone:
  assumes "make_model_from_schema pkg s0 t S src tmd crud = (Inr m, s1)"
      and "s2 = run pkg s1 calls"
  shows "make_model_from_schema pkg s2 t S' src' tmd' crud' = (Inr m, s2) \<and>
         (get_schema pkg schema_type' = Inr S'' \<longrightarrow>
          make_sqlalchemy_model pkg s2 t schema_type' src' tmd' crud' = (Inr m, s2))"
proof -
  from assms(1) have "map_of (container (sqlalchemy_models s1)) t = Some m"
    by (rule make_model_from_schema_cached)
  with run_extends [of s1 pkg calls] assms(2)
  have "map_of (container (sqlalchemy_models s2)) t = Some m"
    by (simp add: extends_def)
  then show ?thesis
    by (simp add: make_sqlalchemy_model_def make_model_from_schema_hit)
qed

theorem full_cache_keyed_by_table_name_alone_witness:
  "make_model_from_schema example_package initial_state ''T'' scenario_schema (Some ''seg1'')
      base_metadata True = (Inr scenario_segmentation_model, state_one) \<and>
   make_model_from_schema example_package
     (run example_package state_one [Make_flat_model_from_schema ''T'' scenario_schema None base_metadata])
     ''T'' (example_schema [(''x'', plain_field mm_Float)]) None TM_None False =
     (Inr scenario_segmentation_model, state_both) \<and>
   get_schema example_package ''cell_type'' = Inr (example_schema []) \<and>
   make_sqlalchemy_model example_package
     (run example_package state_one [Make_flat_model_from_schema ''T'' scenario_schema None base_metadata])
     ''T'' ''cell_type'' None TM_None False =
     (Inr scenario_segmentation_model, state_both)"
proof -
  have h: "make_model_from_schema example_package initial_state ''T'' scenario_schema (Some ''seg1'')
      base_metadata True = (Inr scenario_segmentation_model, state_one)"
    by code_simp
  have r: "run example_package state_one
             [Make_flat_model_from_schema ''T'' scenario_schema None base_metadata] = state_both"
    by code_simp
  have g: "get_schema example_package ''cell_type'' = Inr (example_schema [])"
    by (simp add: example_package_def)
  from full_cache_keyed_by_table_name_alone [OF h refl, where
      calls = "[Make_flat_model_from_schema ''T'' scenario_schema None base_metadata]"
      and S' = "example_schema [(''x'', plain_field mm_Float)]" and src' = None and tmd' = TM_None
      and crud' = False and schema_type' = "''cell_type''" and S'' = "example_schema []"] h r g
  show ?thesis by simp
qed

subsection \<open>C9: the key \<^verbatim>\<open>reference_table_name\<close>\<close>

text \<open>
  Claim C9, as stated, fails where its two cases meet. A string field marked as a
  reference leaves \<^verbatim>\<open>reference_table_name\<close> in the dict; a \<^verbatim>\<open>ReferenceTableField\<close> that is not
  marked, coming after it, pops that entry. The dict is built: no \<open>KeyError\<close>, and no
  entry is left over.
\<close>

theorem reference_table_name_counterexample:
  "create_table_dict example_package ''T''
     (example_schema [(''a'', reference_field mm_String), (''b'', plain_field ReferenceTableField)])
     None base_metadata False =
   Inr [(''__tablename__'', Name ''T''),
        (''id'', Col \<lparr>col_type = BigInteger, col_foreign_key = None, col_primary_key = True,
                      col_index = PyNone, col_nullable = None\<rparr>),
        (''__mapper_args__'', MapperArgs ''T'' True),
        (''a'', Col \<lparr>col_type = String_t, col_foreign_key = None, col_primary_key = False,
                     col_index = PyBool False, col_nullable = None\<rparr>),
        (''b'', Col \<lparr>col_type = BigInteger, col_foreign_key = Some (ForeignKey ''base.id''),
                     col_primary_key = False, col_index = PyBool False, col_nullable = None\<rparr>)]"
  by code_simp

text \<open>
  Claim C9, amended. In a table dict that \<^verbatim>\<open>create_table_dict\<close> returns: if a retained
  field is marked as a reference, is no \<^verbatim>\<open>ReferenceTableField\<close> and is not named
  \<^verbatim>\<open>reference_table_name\<close>, and no retained field after it is a \<^verbatim>\<open>ReferenceTableField\<close> or is
  named \<^verbatim>\<open>reference_table_name\<close>, then the dict has the entry \<^verbatim>\<open>reference_table_name\<close>, and it
  is the raw value of \<^verbatim>\<open>table_metadata["reference_table"]\<close>, not a column. Conversely, if a
  retained \<^verbatim>\<open>ReferenceTableField\<close> is not marked as a reference, and no retained field before
  it is marked as a reference or named \<^verbatim>\<open>reference_table_name\<close> (their types being in the
  type table), \<^verbatim>\<open>create_table_dict\<close> raises \<open>KeyError\<close> for \<^verbatim>\<open>reference_table_name\<close>.
\<close>

theorem reference_table_name_leftover_and_keyerror:
  "(create_table_dict pkg table_name Schema segmentation_source tmd crud = Inr d \<longrightarrow>
    declared_fields Schema = pre @ (k, f) # post \<longrightarrow>
    \<not> drop_column f \<longrightarrow> is_reference pkg f \<longrightarrow> field_type f \<noteq> ReferenceTableField \<longrightarrow>
    k \<noteq> ''reference_table_name'' \<longrightarrow>
    (\<forall>(k', f') \<in> set post. \<not> drop_column f' \<longrightarrow>
        field_type f' \<noteq> ReferenceTableField \<and> k' \<noteq> ''reference_table_name'') \<longrightarrow>
    (\<exists>dd r. tmd = TM_dict dd \<and> map_of dd ''reference_table'' = Some r \<and>
            map_of d ''reference_table_name'' = Some (Raw r))) \<and>
   (declared_fields SchemaB = preB @ (kB, fB) # postB \<longrightarrow>
    \<not> drop_column fB \<longrightarrow> \<not> is_reference pkg fB \<longrightarrow> field_type fB = ReferenceTableField \<longrightarrow>
    (\<forall>(k', f') \<in> set preB. \<not> drop_column f' \<longrightarrow>
        \<not> is_reference pkg f' \<and> k' \<noteq> ''reference_table_name'' \<and>
        field_column_map (field_type f') \<noteq> None) \<longrightarrow>
    create_table_dict pkg table_nameB SchemaB segmentation_sourceB tmdB crudB =
      Inl (KeyError ''reference_table_name''))"
proof (intro conjI impI)
  let ?m = "table_header table_name segmentation_source @ (if crud then crud_columns else [])"
  assume built: "create_table_dict pkg table_name Schema segmentation_source tmd crud = Inr d"
     and fs: "declared_fields Schema = pre @ (k, f) # post"
     and nd: "\<not> drop_column f" and ref: "is_reference pkg f"
     and nt: "field_type f \<noteq> ReferenceTableField" and nk: "k \<noteq> ''reference_table_name''"
     and post: "\<forall>(k', f') \<in> set post. \<not> drop_column f' \<longrightarrow>
        field_type f' \<noteq> ReferenceTableField \<and> k' \<noteq> ''reference_table_name''"
  from built fs have "add_fields pkg tmd ?m (pre @ (k, f) # post) = Inr d"
    by (simp add: create_table_dict_unfold)
  then obtain m0 where m0: "add_fields pkg tmd m0 ((k, f) # post) = Inr d"
    by (auto simp: add_fields_append split: sum.splits)
  with nd obtain m1 m2 where
      v: "validate_metadata pkg m0 f tmd = Inr m1" and a: "add_column m1 k f = Inr m2" and
      r: "add_fields pkg tmd m2 post = Inr d"
    by (auto split: sum.splits)
  from validate_metadata_ref [OF v ref] obtain dd rv where
    tmd: "tmd = TM_dict dd" and rv: "map_of dd ''reference_table'' = Some rv" and
    m1: "m1 = AList.update ''reference_table_name'' (Raw rv) m0" by blast
  from m1 add_column_pending [OF a nk nt]
  have "map_of m2 ''reference_table_name'' = Some (Raw rv)" by (simp add: update_conv')
  from add_fields_pending_kept [OF r [unfolded tmd] rv this post]
  have "map_of d ''reference_table_name'' = Some (Raw rv)" .
  with tmd rv show "\<exists>dd r. tmd = TM_dict dd \<and> map_of dd ''reference_table'' = Some r \<and>
            map_of d ''reference_table_name'' = Some (Raw r)" by blast
next
  let ?m = "table_header table_nameB segmentation_sourceB @ (if crudB then crud_columns else [])"
  assume fs: "declared_fields SchemaB = preB @ (kB, fB) # postB"
     and nd: "\<not> drop_column fB" and nr: "\<not> is_reference pkg fB"
     and t: "field_type fB = ReferenceTableField"
     and pre: "\<forall>(k', f') \<in> set preB. \<not> drop_column f' \<longrightarrow>
        \<not> is_reference pkg f' \<and> k' \<noteq> ''reference_table_name'' \<and>
        field_column_map (field_type f') \<noteq> None"
  have step: "add_fields pkg tmdB m ((kB, fB) # postB) = Inl (KeyError ''reference_table_name'')"
    if "map_of m ''reference_table_name'' = None" for m
    using that nd nr t by (simp add: validate_metadata_noref add_column_def Let_def)
  from add_fields_nothing_pending
         [OF table_header_lookup(1) [of table_nameB segmentation_sourceB crudB] pre, where tmd = tmdB]
  have "add_fields pkg tmdB ?m (preB @ (kB, fB) # postB) = Inl (KeyError ''reference_table_name'')"
  proof
    assume "add_fields pkg tmdB ?m preB = Inl (KeyError ''reference_table_name'')"
    then show ?thesis by (simp only: add_fields_append sum.case)
  next
    assume "\<exists>m'. add_fields pkg tmdB ?m preB = Inr m' \<and> map_of m' ''reference_table_name'' = None"
    then obtain m' where "add_fields pkg tmdB ?m preB = Inr m'"
      and "map_of m' ''reference_table_name'' = None" by blast
    with step [of m'] show ?thesis by (simp only: add_fields_append sum.case)
  qed
  with fs show "create_table_dict pkg table_nameB SchemaB segmentation_sourceB tmdB crudB =
      Inl (KeyError ''reference_table_name'')"
    by (simp add: create_table_dict_unfold)
qed

theorem reference_table_name_leftover_and_keyerror_witness:
  "map_sum id (\<lambda>d. map_of d ''reference_table_name'')
     (create_table_dict example_package ''T'' (example_schema [(''a'', reference_field mm_String)])
        None base_metadata False) = Inr (Some (Raw (PyStr ''base''))) \<and>
   create_table_dict example_package ''T'' (example_schema [(''b'', plain_field ReferenceTableField)])
     None base_metadata False = Inl (KeyError ''reference_table_name'')"
proof -
  let ?A = "example_schema [(''a'', reference_field mm_String)]"
  let ?B = "example_schema [(''b'', plain_field ReferenceTableField)]"
  obtain d where h1: "create_table_dict example_package ''T'' ?A None base_metadata False = Inr d"
    by (simp add: create_table_dict_unfold example_schema_def reference_field_def
          dict_get_def validate_metadata_def add_column_def example_package_def base_metadata_def)
  have h2: "declared_fields ?A = [] @ (''a'', reference_field mm_String) # []"
    by (simp add: example_schema_def)
  have h3: "declared_fields ?B = [] @ (''b'', plain_field ReferenceTableField) # []"
    by (simp add: example_schema_def)
  note inst = reference_table_name_leftover_and_keyerror
    [where pkg = example_package and table_name = "''T''" and Schema = ?A
       and segmentation_source = None and tmd = base_metadata and crud = False and d = d
       and pre = "[]" and k = "''a''" and f = "reference_field mm_String" and post = "[]"
       and SchemaB = ?B and preB = "[]" and kB = "''b''" and fB = "plain_field ReferenceTableField"
       and postB = "[]" and table_nameB = "''T''" and segmentation_sourceB = None
       and tmdB = base_metadata and crudB = False]
  from inst h1 h2 h3 show ?thesis
    by (simp add: reference_field_def plain_field_def dict_get_def example_package_def
          base_metadata_def)
qed

subsection \<open>C10: the default \<^verbatim>\<open>metadata_dict\<close>\<close>

text \<open>
  Claim C10. For a list of pairs that is not empty and whose schema names are all
  registered, \<^verbatim>\<open>make_dataset_models\<close> with \<^verbatim>\<open>metadata_dict\<close> left at \<^verbatim>\<open>None\<close> raises
  \<open>AttributeError\<close>, and the state is as before: no model was built.
\<close>

theorem make_dataset_models_default_metadata_raises:
  assumes "schemas_and_tables \<noteq> []"
      and "\<forall>(schema_name, table_name) \<in> set schemas_and_tables. schema_name \<in> set (get_types pkg)"
  shows "make_dataset_models pkg s aligned_volume schemas_and_tables segmentation_source
           include_contacts None with_crud_columns = (Inl AttributeError, s)"
proof -
  from assms(2) have v: "validate_types pkg schemas_and_tables = Inr ()"
    by (auto simp: validate_types_def Let_def list_all_iff)
  from assms(1) obtain schema_name table_name rest where
    "schemas_and_tables = (schema_name, table_name) # rest"
    by (cases schemas_and_tables) auto
  then have "dataset_loop pkg s [] schemas_and_tables segmentation_source None with_crud_columns =
             (Inl AttributeError, s)"
    by simp
  with v show ?thesis by (simp add: make_dataset_models_def)
qed

theorem make_dataset_models_default_metadata_raises_witness:
  "list_all (\<lambda>(schema_name, table_name). schema_name \<in> set (get_types example_package))
     [(''cell_type'', ''t1''), (''bound_tag'', ''t2'')] \<and>
   make_dataset_models example_package initial_state ''vol''
       [(''cell_type'', ''t1''), (''bound_tag'', ''t2'')] None False None True =
     (Inl AttributeError, initial_state)"
proof -
  have h1: "[(''cell_type'', ''t1''), (''bound_tag'', ''t2'')] \<noteq> ([] :: (string \<times> string) list)" by simp
  have h2: "\<forall>(schema_name, table_name) \<in> set [(''cell_type'', ''t1''), (''bound_tag'', ''t2'')].
       schema_name \<in> set (get_types example_package)"
    by (simp add: example_package_def)
  from make_dataset_models_default_metadata_raises [OF h1 h2, of initial_state "''vol''" None False True]
  show ?thesis by (simp add: example_package_def)
qed

end
